theory Spec2Isabelle
  imports
    Complex_Main
    "HOL-Library.Word"
    "HOL-Library.Char_ord"
    "HOL-Library.List_Lexorder"
begin

section \<open>Scheduler configuration defaulting (pkg/scheduler/apis/config/v1/defaults.go)\<close>

text \<open>
  A shallow embedding of \<^verbatim>\<open>defaults.go\<close>. Go structs are records, pointers to
  scalars are options (\<open>None\<close> is the nil pointer), slices are lists (nil and empty
  slices behave alike in every statement of the file: only \<^verbatim>\<open>len\<close>, \<^verbatim>\<open>range\<close> and
  \<^verbatim>\<open>append\<close> are applied to them), \<^verbatim>\<open>int32\<close> and \<^verbatim>\<open>int64\<close> are machine words, strings are
  byte lists ordered bytewise, as Go orders them. In-place mutation through a pointer
  becomes a function from the old value to the new one.
\<close>

subsection \<open>Data model\<close>

type_synonym int32 = "32 word"
type_synonym int64 = "64 word"

text \<open>
  \<^verbatim>\<open>float32\<close>: the file only compares a float with \<^verbatim>\<open>0.0\<close> and stores the constant
  \<^verbatim>\<open>50.0\<close>. Both zeros of IEEE 754 are \<open>Float32 0\<close>; infinities and NaN differ from zero.
\<close>

datatype float32 = Float32 real | PosInf | NegInf | NaN

record Plugin =
  Plugin_Name :: string
  Plugin_Weight :: "int32 option"

record PluginSet =
  Enabled :: "Plugin list"
  Disabled :: "Plugin list"

record Plugins =
  MultiPoint :: PluginSet
  PreFilter :: PluginSet
  Filter :: PluginSet
  PostFilter :: PluginSet
  Reserve :: PluginSet
  PreScore :: PluginSet
  Score :: PluginSet
  PreBind :: PluginSet
  Bind :: PluginSet
  PostBind :: PluginSet
  Permit :: PluginSet
  QueueSort :: PluginSet

record GroupVersion =
  Group :: string
  Version :: string

record GroupVersionKind =
  GVK_Group :: string
  GVK_Version :: string
  GVK_Kind :: string

definition WithKind :: "GroupVersion \<Rightarrow> string \<Rightarrow> GroupVersionKind" where
  "WithKind gv kind = \<lparr>GVK_Group = Group gv, GVK_Version = Version gv, GVK_Kind = kind\<rparr>"

text \<open>
  \<^verbatim>\<open>runtime.Object\<close> as held by \<^verbatim>\<open>RawExtension.Object\<close>: the nil interface, a
  \<^verbatim>\<open>*runtime.Unknown\<close> (carrying its raw bytes), or a pointer to a typed argument
  object. The typed objects are a type parameter: the set of argument kinds is open.
\<close>

datatype 'a Object = NilObject | Unknown string | Typed 'a

record 'a RawExtension =
  Raw :: string
  Object :: "'a Object"

record 'a PluginConfig =
  PluginConfig_Name :: string
  Args :: "'a RawExtension"

record 'a KubeSchedulerProfile =
  SchedulerName :: "string option"
  Plugins :: "Plugins option"
  PluginConfig :: "'a PluginConfig list"

record LeaderElectionConfiguration =
  LeaderElect :: "bool option"
  LeaseDuration :: int64
  RenewDeadline :: int64
  RetryPeriod :: int64
  ResourceLock :: string
  ResourceName :: string
  ResourceNamespace :: string

record ClientConnectionConfiguration =
  Kubeconfig :: string
  AcceptContentTypes :: string
  ContentType :: string
  QPS :: float32
  Burst :: int32

record 'a KubeSchedulerConfiguration =
  Parallelism :: "int32 option"
  LeaderElection :: LeaderElectionConfiguration
  ClientConnection :: ClientConnectionConfiguration
  EnableProfiling :: "bool option"
  EnableContentionProfiling :: "bool option"
  PercentageOfNodesToScore :: "int32 option"
  PodInitialBackoffSeconds :: "int64 option"
  PodMaxBackoffSeconds :: "int64 option"
  Profiles :: "'a KubeSchedulerProfile list"

text \<open>The Go zero values \<^verbatim>\<open>configv1.KubeSchedulerProfile{}\<close> and friends.\<close>

definition zero_KubeSchedulerProfile :: "'a KubeSchedulerProfile" where
  "zero_KubeSchedulerProfile = \<lparr>SchedulerName = None, Plugins = None, PluginConfig = []\<rparr>"

definition zero_LeaderElectionConfiguration :: LeaderElectionConfiguration where
  "zero_LeaderElectionConfiguration =
     \<lparr>LeaderElect = None, LeaseDuration = 0, RenewDeadline = 0, RetryPeriod = 0,
      ResourceLock = [], ResourceName = [], ResourceNamespace = []\<rparr>"

definition zero_ClientConnectionConfiguration :: ClientConnectionConfiguration where
  "zero_ClientConnectionConfiguration =
     \<lparr>Kubeconfig = [], AcceptContentTypes = [], ContentType = [], QPS = Float32 0, Burst = 0\<rparr>"

definition zero_KubeSchedulerConfiguration :: "'a KubeSchedulerConfiguration" where
  "zero_KubeSchedulerConfiguration =
     \<lparr>Parallelism = None,
      LeaderElection = zero_LeaderElectionConfiguration,
      ClientConnection = zero_ClientConnectionConfiguration,
      EnableProfiling = None, EnableContentionProfiling = None,
      PercentageOfNodesToScore = None,
      PodInitialBackoffSeconds = None, PodMaxBackoffSeconds = None,
      Profiles = []\<rparr>"

subsection \<open>What the file takes from other packages\<close>

text \<open>
  Constants and the feature gate that \<^verbatim>\<open>defaults.go\<close> reads from other packages
  (\<^verbatim>\<open>v1.DefaultSchedulerName\<close>, \<^verbatim>\<open>config.MaxCustomPriorityScore\<close>, ...). Their values are
  not in this file, so they are parameters.
\<close>

record constants =
  DefaultSchedulerName :: string
  DefaultPercentageOfNodesToScore :: int32
  SchedulerDefaultLockObjectNamespace :: string
  SchedulerDefaultLockObjectName :: string
  SchemeGroupVersion :: GroupVersion
  MaxCustomPriorityScore :: int64
  VolumeCapacityPriority_Enabled :: bool
  ResourceCPU :: string
  ResourceMemory :: string
  LeastAllocated :: string
  SystemDefaulting :: string

text \<open>
  The collaborators: \<^verbatim>\<open>getDefaultPlugins\<close> and \<^verbatim>\<open>mergePlugins\<close> (same package, another
  file), the plugin-argument scheme with its \<^verbatim>\<open>New\<close> (an error is \<open>None\<close>) and
  \<^verbatim>\<open>Default\<close>, the \<^verbatim>\<open>SetGroupVersionKind\<close> method of a typed object, and the
  recommended leader-election defaults of component-base.
\<close>

record 'a env =
  K :: constants
  getDefaultPlugins :: "Plugins option"
  mergePlugins :: "Plugins option \<Rightarrow> Plugins option \<Rightarrow> Plugins option"
  scheme_New :: "GroupVersionKind \<Rightarrow> 'a option"
  scheme_Default :: "'a \<Rightarrow> 'a"
  SetGroupVersionKind :: "GroupVersionKind \<Rightarrow> 'a \<Rightarrow> 'a"
  RecommendedDefaultLeaderElectionConfiguration ::
    "LeaderElectionConfiguration \<Rightarrow> LeaderElectionConfiguration"

subsection \<open>pluginsNames\<close>

text \<open>
  \<^verbatim>\<open>sets.String\<close> is a set of strings; \<^verbatim>\<open>Insert\<close> is \<open>insert\<close>, \<^verbatim>\<open>Has\<close> is membership and
  \<^verbatim>\<open>List\<close> returns the members sorted.
\<close>

definition pluginsNames :: "Plugins option \<Rightarrow> string list" where
  "pluginsNames p =
     (case p of
        None \<Rightarrow> []
      | Some p \<Rightarrow>
          (let extensions =
                 [MultiPoint p, PreFilter p, Filter p, PostFilter p, Reserve p, PreScore p,
                  Score p, PreBind p, Bind p, PostBind p, Permit p, QueueSort p];
               n = fold (\<lambda>e n. fold (\<lambda>pg n. insert (Plugin_Name pg) n) (Enabled e) n)
                     extensions {}
           in sorted_list_of_set n))"

subsection \<open>setDefaults_KubeSchedulerProfile\<close>

text \<open>
  \<^verbatim>\<open>scheme.Default\<close> applied to an interface value: the scheme finds the defaulter by the
  dynamic type, so the nil interface has none and is left as it is.
\<close>

definition Default_Object :: "'a env \<Rightarrow> 'a Object \<Rightarrow> 'a Object" where
  "Default_Object env args =
     (case args of Typed a \<Rightarrow> Typed (scheme_Default env a) | _ \<Rightarrow> args)"

text \<open>
  One iteration of the first loop (lines 73-80) at index \<open>j\<close>, on the pair of
  \<^verbatim>\<open>existingConfigs\<close> and \<^verbatim>\<open>prof.PluginConfig\<close>.
\<close>

definition existing_step ::
  "'a env \<Rightarrow> nat \<Rightarrow> string set \<times> 'a PluginConfig list \<Rightarrow> string set \<times> 'a PluginConfig list"
where
  "existing_step env j st =
     (let existingConfigs = insert (PluginConfig_Name (snd st ! j)) (fst st);
          args = Object (Args (snd st ! j))
      in case args of
           Unknown u \<Rightarrow> (existingConfigs, snd st)
         | _ \<Rightarrow> (existingConfigs,
                 (snd st)[j := (snd st ! j)\<lparr>Args := (Args (snd st ! j))\<lparr>Object := Default_Object env args\<rparr>\<rparr>]))"

text \<open>The second loop (lines 83-99) over the names still to visit.\<close>

fun append_defaults ::
  "'a env \<Rightarrow> string set \<Rightarrow> string list \<Rightarrow> 'a PluginConfig list \<Rightarrow> 'a PluginConfig list"
where
  "append_defaults env existingConfigs [] pc = pc"
| "append_defaults env existingConfigs (name # names) pc =
     (if name \<in> existingConfigs then append_defaults env existingConfigs names pc
      else
        let gvk = WithKind (SchemeGroupVersion (K env)) (name @ ''Args'') in
        case scheme_New env gvk of
          None \<Rightarrow> append_defaults env existingConfigs names pc
        | Some args \<Rightarrow>
            append_defaults env existingConfigs names
              (pc @ [\<lparr>PluginConfig_Name = name,
                      Args = \<lparr>Raw = [],
                              Object = Typed (SetGroupVersionKind env gvk (scheme_Default env args))\<rparr>\<rparr>]))"

definition setDefaults_KubeSchedulerProfile ::
  "'a env \<Rightarrow> 'a KubeSchedulerProfile \<Rightarrow> 'a KubeSchedulerProfile"
where
  "setDefaults_KubeSchedulerProfile env prof =
     (let prof1 = prof\<lparr>Plugins := mergePlugins env (getDefaultPlugins env) (Plugins prof)\<rparr>;
          st = fold (existing_step env) [0..<length (PluginConfig prof1)] ({}, PluginConfig prof1);
          existingConfigs = fst st;
          prof2 = prof1\<lparr>PluginConfig := snd st\<rparr>
      in prof2\<lparr>PluginConfig :=
                 append_defaults env existingConfigs (pluginsNames (Plugins prof2))
                   (PluginConfig prof2)\<rparr>)"

subsection \<open>SetDefaults_KubeSchedulerConfiguration\<close>

text \<open>The loop of lines 118-121: each profile is defaulted in place, by index.\<close>

definition profile_step ::
  "'a env \<Rightarrow> nat \<Rightarrow> 'a KubeSchedulerProfile list \<Rightarrow> 'a KubeSchedulerProfile list"
where
  "profile_step env i profs = profs[i := setDefaults_KubeSchedulerProfile env (profs ! i)]"

text \<open>
  The statements of \<^verbatim>\<open>SetDefaults_KubeSchedulerConfiguration\<close>, grouped by the field they
  assign. Lines 104-106:
\<close>

definition default_Parallelism ::
  "'a KubeSchedulerConfiguration \<Rightarrow> 'a KubeSchedulerConfiguration"
where
  "default_Parallelism obj =
     (if Parallelism obj = None then obj\<lparr>Parallelism := Some 16\<rparr> else obj)"

text \<open>Lines 108-115: at least one profile, and a name for a single unnamed profile.\<close>

definition default_SchedulerName ::
  "'a env \<Rightarrow> 'a KubeSchedulerConfiguration \<Rightarrow> 'a KubeSchedulerConfiguration"
where
  "default_SchedulerName env obj =
     (let obj = (if length (Profiles obj) = 0
                 then obj\<lparr>Profiles := Profiles obj @ [zero_KubeSchedulerProfile]\<rparr> else obj);
          obj = (if length (Profiles obj) = 1 \<and> SchedulerName (Profiles obj ! 0) = None
                 then obj\<lparr>Profiles := (Profiles obj)
                        [0 := (Profiles obj ! 0)\<lparr>SchedulerName := Some (DefaultSchedulerName (K env))\<rparr>]\<rparr>
                 else obj)
      in obj)"

text \<open>Lines 118-121.\<close>

definition default_Profiles ::
  "'a env \<Rightarrow> 'a KubeSchedulerConfiguration \<Rightarrow> 'a KubeSchedulerConfiguration"
where
  "default_Profiles env obj =
     obj\<lparr>Profiles := fold (profile_step env) [0..<length (Profiles obj)] (Profiles obj)\<rparr>"

text \<open>Lines 123-125.\<close>

definition default_PercentageOfNodesToScore ::
  "'a env \<Rightarrow> 'a KubeSchedulerConfiguration \<Rightarrow> 'a KubeSchedulerConfiguration"
where
  "default_PercentageOfNodesToScore env obj =
     (if PercentageOfNodesToScore obj = None
      then obj\<lparr>PercentageOfNodesToScore := Some (DefaultPercentageOfNodesToScore (K env))\<rparr>
      else obj)"

text \<open>Lines 127-138, on \<^verbatim>\<open>obj.LeaderElection\<close>.\<close>

definition default_LeaderElection ::
  "constants \<Rightarrow> LeaderElectionConfiguration \<Rightarrow> LeaderElectionConfiguration"
where
  "default_LeaderElection k le =
     (let le = (if length (ResourceLock le) = 0 then le\<lparr>ResourceLock := ''leases''\<rparr> else le);
          le = (if length (ResourceNamespace le) = 0
                then le\<lparr>ResourceNamespace := SchedulerDefaultLockObjectNamespace k\<rparr> else le);
          le = (if length (ResourceName le) = 0
                then le\<lparr>ResourceName := SchedulerDefaultLockObjectName k\<rparr> else le)
      in le)"

text \<open>Lines 140-149, on \<^verbatim>\<open>obj.ClientConnection\<close>.\<close>

definition default_ClientConnection ::
  "ClientConnectionConfiguration \<Rightarrow> ClientConnectionConfiguration"
where
  "default_ClientConnection cc =
     (let cc = (if length (ContentType cc) = 0
                then cc\<lparr>ContentType := ''application/vnd.kubernetes.protobuf''\<rparr> else cc);
          cc = (if QPS cc = Float32 0 then cc\<lparr>QPS := Float32 50\<rparr> else cc);
          cc = (if Burst cc = 0 then cc\<lparr>Burst := 100\<rparr> else cc)
      in cc)"

text \<open>Lines 154-160.\<close>

definition default_Backoff ::
  "'a KubeSchedulerConfiguration \<Rightarrow> 'a KubeSchedulerConfiguration"
where
  "default_Backoff obj =
     (let obj = (if PodInitialBackoffSeconds obj = None
                 then obj\<lparr>PodInitialBackoffSeconds := Some 1\<rparr> else obj);
          obj = (if PodMaxBackoffSeconds obj = None
                 then obj\<lparr>PodMaxBackoffSeconds := Some 10\<rparr> else obj)
      in obj)"

text \<open>
  Lines 163-170. When line 168 dereferences \<^verbatim>\<open>obj.EnableProfiling\<close> the pointer is not
  nil: line 164 has just set it.
\<close>

definition default_Profiling ::
  "'a KubeSchedulerConfiguration \<Rightarrow> 'a KubeSchedulerConfiguration"
where
  "default_Profiling obj =
     (let obj = (if EnableProfiling obj = None
                 then obj\<lparr>EnableProfiling := Some True\<rparr> else obj);
          obj = (if EnableProfiling obj = Some True \<and> EnableContentionProfiling obj = None
                 then obj\<lparr>EnableContentionProfiling := Some True\<rparr> else obj)
      in obj)"

definition SetDefaults_KubeSchedulerConfiguration ::
  "'a env \<Rightarrow> 'a KubeSchedulerConfiguration \<Rightarrow> 'a KubeSchedulerConfiguration"
where
  "SetDefaults_KubeSchedulerConfiguration env obj =
     (let obj = default_Parallelism obj;
          obj = default_SchedulerName env obj;
          obj = default_Profiles env obj;
          obj = default_PercentageOfNodesToScore env obj;
          obj = obj\<lparr>LeaderElection := default_LeaderElection (K env) (LeaderElection obj)\<rparr>;
          obj = obj\<lparr>ClientConnection := default_ClientConnection (ClientConnection obj)\<rparr>;
          obj = obj\<lparr>LeaderElection :=
                      RecommendedDefaultLeaderElectionConfiguration env (LeaderElection obj)\<rparr>;
          obj = default_Backoff obj;
          obj = default_Profiling obj
      in obj)"

subsection \<open>Defaults of the plugin arguments\<close>

record DefaultPreemptionArgs =
  MinCandidateNodesPercentage :: "int32 option"
  MinCandidateNodesAbsolute :: "int32 option"

definition SetDefaults_DefaultPreemptionArgs :: "DefaultPreemptionArgs \<Rightarrow> DefaultPreemptionArgs" where
  "SetDefaults_DefaultPreemptionArgs obj =
     (let obj = (if MinCandidateNodesPercentage obj = None
                 then obj\<lparr>MinCandidateNodesPercentage := Some 10\<rparr> else obj);
          obj = (if MinCandidateNodesAbsolute obj = None
                 then obj\<lparr>MinCandidateNodesAbsolute := Some 100\<rparr> else obj)
      in obj)"

record InterPodAffinityArgs =
  HardPodAffinityWeight :: "int32 option"

definition SetDefaults_InterPodAffinityArgs :: "InterPodAffinityArgs \<Rightarrow> InterPodAffinityArgs" where
  "SetDefaults_InterPodAffinityArgs obj =
     (if HardPodAffinityWeight obj = None then obj\<lparr>HardPodAffinityWeight := Some 1\<rparr> else obj)"

record UtilizationShapePoint =
  Point_Utilization :: int32
  Point_Score :: int32

record VolumeBindingArgs =
  BindTimeoutSeconds :: "int64 option"
  Shape :: "UtilizationShapePoint list"

text \<open>\<^verbatim>\<open>int32(config.MaxCustomPriorityScore)\<close> is Go's truncating conversion, \<open>ucast\<close>.\<close>

definition SetDefaults_VolumeBindingArgs :: "constants \<Rightarrow> VolumeBindingArgs \<Rightarrow> VolumeBindingArgs" where
  "SetDefaults_VolumeBindingArgs k obj =
     (let obj = (if BindTimeoutSeconds obj = None
                 then obj\<lparr>BindTimeoutSeconds := Some 600\<rparr> else obj);
          obj = (if length (Shape obj) = 0 \<and> VolumeCapacityPriority_Enabled k
                 then obj\<lparr>Shape :=
                        [\<lparr>Point_Utilization = 0, Point_Score = 0\<rparr>,
                         \<lparr>Point_Utilization = 100,
                          Point_Score = ucast (MaxCustomPriorityScore k)\<rparr>]\<rparr>
                 else obj)
      in obj)"

record ResourceSpec =
  ResourceSpec_Name :: string
  ResourceSpec_Weight :: int64

definition defaultResourceSpec :: "constants \<Rightarrow> ResourceSpec list" where
  "defaultResourceSpec k =
     [\<lparr>ResourceSpec_Name = ResourceCPU k, ResourceSpec_Weight = 1\<rparr>,
      \<lparr>ResourceSpec_Name = ResourceMemory k, ResourceSpec_Weight = 1\<rparr>]"

text \<open>
  One iteration of the weight loops (lines 212-216 and 236-240) at index \<open>i\<close>. Neither
  loop writes to a list that shares storage with \<^verbatim>\<open>defaultResourceSpec\<close>: the weights of
  that list are 1, so the guarded assignment is never reached on it.
\<close>

definition weight_step :: "nat \<Rightarrow> ResourceSpec list \<Rightarrow> ResourceSpec list" where
  "weight_step i rs =
     (if ResourceSpec_Weight (rs ! i) = 0 then rs[i := (rs ! i)\<lparr>ResourceSpec_Weight := 1\<rparr>]
      else rs)"

record NodeResourcesBalancedAllocationArgs =
  Resources :: "ResourceSpec list"

definition SetDefaults_NodeResourcesBalancedAllocationArgs ::
  "constants \<Rightarrow> NodeResourcesBalancedAllocationArgs \<Rightarrow> NodeResourcesBalancedAllocationArgs"
where
  "SetDefaults_NodeResourcesBalancedAllocationArgs k obj =
     (if length (Resources obj) = 0 then obj\<lparr>Resources := defaultResourceSpec k\<rparr>
      else obj\<lparr>Resources := fold weight_step [0..<length (Resources obj)] (Resources obj)\<rparr>)"

record PodTopologySpreadArgs =
  DefaultingType :: string

definition SetDefaults_PodTopologySpreadArgs ::
  "constants \<Rightarrow> PodTopologySpreadArgs \<Rightarrow> PodTopologySpreadArgs"
where
  "SetDefaults_PodTopologySpreadArgs k obj =
     (if DefaultingType obj = [] then obj\<lparr>DefaultingType := SystemDefaulting k\<rparr> else obj)"

record ScoringStrategy =
  ScoringStrategy_Type :: string
  ScoringStrategy_Resources :: "ResourceSpec list"
  RequestedToCapacityRatio :: "UtilizationShapePoint list option"

record NodeResourcesFitArgs =
  IgnoredResources :: "string list"
  IgnoredResourceGroups :: "string list"
  ScoringStrategy :: "ScoringStrategy option"

text \<open>
  \<^verbatim>\<open>obj.ScoringStrategy\<close> is a pointer: after the first statement it is not nil, and the
  two statements that follow write through it.
\<close>

definition SetDefaults_NodeResourcesFitArgs ::
  "constants \<Rightarrow> NodeResourcesFitArgs \<Rightarrow> NodeResourcesFitArgs"
where
  "SetDefaults_NodeResourcesFitArgs k obj =
     (let s = (case ScoringStrategy obj of
                 None \<Rightarrow> \<lparr>ScoringStrategy_Type = LeastAllocated k,
                           ScoringStrategy_Resources = defaultResourceSpec k,
                           RequestedToCapacityRatio = None\<rparr>
               | Some s \<Rightarrow> s);
          s = (if length (ScoringStrategy_Resources s) = 0
               then s\<lparr>ScoringStrategy_Resources := ScoringStrategy_Resources s @ defaultResourceSpec k\<rparr>
               else s);
          s = s\<lparr>ScoringStrategy_Resources :=
                  fold weight_step [0..<length (ScoringStrategy_Resources s)]
                    (ScoringStrategy_Resources s)\<rparr>
      in obj\<lparr>ScoringStrategy := Some s\<rparr>)"

subsection \<open>A merge collaborator that panics\<close>

text \<open>
  \<^verbatim>\<open>mergePlugins\<close> returns a pointer and no error value, so the only way the call at line 69
  can fail is a Go panic. \<^verbatim>\<open>defaults.go\<close> defers no \<^verbatim>\<open>recover\<close>: such a panic unwinds
  through \<^verbatim>\<open>setDefaults_KubeSchedulerProfile\<close> and \<^verbatim>\<open>SetDefaults_KubeSchedulerConfiguration\<close>
  to their caller, and no statement after the call is run. The two functions are
  translated once more for a merge collaborator that may panic: \<open>Inl e\<close> is a panic with
  value \<open>e\<close>, \<open>Inr v\<close> the normal return of \<open>v\<close>. The statements are those of the
  definitions above; only the call of the collaborator and the loop over the profiles
  get the extra branch.
\<close>

definition setDefaults_KubeSchedulerProfile_panic ::
  "'a env \<Rightarrow> (Plugins option \<Rightarrow> Plugins option \<Rightarrow> 'e + Plugins option) \<Rightarrow>
   'a KubeSchedulerProfile \<Rightarrow> 'e + 'a KubeSchedulerProfile"
where
  "setDefaults_KubeSchedulerProfile_panic env mergePlugins_panic prof =
     (case mergePlugins_panic (getDefaultPlugins env) (Plugins prof) of
        Inl e \<Rightarrow> Inl e
      | Inr merged \<Rightarrow>
          (let prof1 = prof\<lparr>Plugins := merged\<rparr>;
               st = fold (existing_step env) [0..<length (PluginConfig prof1)]
                      ({}, PluginConfig prof1);
               existingConfigs = fst st;
               prof2 = prof1\<lparr>PluginConfig := snd st\<rparr>
           in Inr (prof2\<lparr>PluginConfig :=
                      append_defaults env existingConfigs (pluginsNames (Plugins prof2))
                        (PluginConfig prof2)\<rparr>)))"

definition profile_step_panic ::
  "'a env \<Rightarrow> (Plugins option \<Rightarrow> Plugins option \<Rightarrow> 'e + Plugins option) \<Rightarrow> nat \<Rightarrow>
   'e + 'a KubeSchedulerProfile list \<Rightarrow> 'e + 'a KubeSchedulerProfile list"
where
  "profile_step_panic env mergePlugins_panic i st =
     (case st of
        Inl e \<Rightarrow> Inl e
      | Inr profs \<Rightarrow>
          (case setDefaults_KubeSchedulerProfile_panic env mergePlugins_panic (profs ! i) of
             Inl e \<Rightarrow> Inl e
           | Inr prof \<Rightarrow> Inr (profs[i := prof])))"


subsection \<open>A registry and collaborators to run the defaulters on\<close>

text \<open>
  The theorems below hold for every registry and every collaborator. To apply them to
  concrete configurations, this section builds one registry: the six argument kinds
  whose defaulters \<^verbatim>\<open>defaults.go\<close> defines, each object carrying its \<^verbatim>\<open>TypeMeta\<close>, with
  \<^verbatim>\<open>Default\<close> dispatching on the dynamic type to the \<^verbatim>\<open>SetDefaults_\<close> function of that type.
\<close>

record TypeMeta =
  Kind :: string
  APIVersion :: string

datatype ArgsObject =
    DefaultPreemptionArgs_Object TypeMeta DefaultPreemptionArgs
  | InterPodAffinityArgs_Object TypeMeta InterPodAffinityArgs
  | VolumeBindingArgs_Object TypeMeta VolumeBindingArgs
  | NodeResourcesBalancedAllocationArgs_Object TypeMeta NodeResourcesBalancedAllocationArgs
  | PodTopologySpreadArgs_Object TypeMeta PodTopologySpreadArgs
  | NodeResourcesFitArgs_Object TypeMeta NodeResourcesFitArgs

definition zero_TypeMeta :: TypeMeta where
  "zero_TypeMeta = \<lparr>Kind = [], APIVersion = []\<rparr>"

fun registry_Default :: "constants \<Rightarrow> ArgsObject \<Rightarrow> ArgsObject" where
  "registry_Default k (DefaultPreemptionArgs_Object tm a) =
     DefaultPreemptionArgs_Object tm (SetDefaults_DefaultPreemptionArgs a)"
| "registry_Default k (InterPodAffinityArgs_Object tm a) =
     InterPodAffinityArgs_Object tm (SetDefaults_InterPodAffinityArgs a)"
| "registry_Default k (VolumeBindingArgs_Object tm a) =
     VolumeBindingArgs_Object tm (SetDefaults_VolumeBindingArgs k a)"
| "registry_Default k (NodeResourcesBalancedAllocationArgs_Object tm a) =
     NodeResourcesBalancedAllocationArgs_Object tm (SetDefaults_NodeResourcesBalancedAllocationArgs k a)"
| "registry_Default k (PodTopologySpreadArgs_Object tm a) =
     PodTopologySpreadArgs_Object tm (SetDefaults_PodTopologySpreadArgs k a)"
| "registry_Default k (NodeResourcesFitArgs_Object tm a) =
     NodeResourcesFitArgs_Object tm (SetDefaults_NodeResourcesFitArgs k a)"

definition registry_New :: "constants \<Rightarrow> GroupVersionKind \<Rightarrow> ArgsObject option" where
  "registry_New k gvk =
     (if GVK_Group gvk \<noteq> Group (SchemeGroupVersion k) \<or>
         GVK_Version gvk \<noteq> Version (SchemeGroupVersion k) then None
      else if GVK_Kind gvk = ''DefaultPreemptionArgs'' then
        Some (DefaultPreemptionArgs_Object zero_TypeMeta
          \<lparr>MinCandidateNodesPercentage = None, MinCandidateNodesAbsolute = None\<rparr>)
      else if GVK_Kind gvk = ''InterPodAffinityArgs'' then
        Some (InterPodAffinityArgs_Object zero_TypeMeta \<lparr>HardPodAffinityWeight = None\<rparr>)
      else if GVK_Kind gvk = ''VolumeBindingArgs'' then
        Some (VolumeBindingArgs_Object zero_TypeMeta \<lparr>BindTimeoutSeconds = None, Shape = []\<rparr>)
      else if GVK_Kind gvk = ''NodeResourcesBalancedAllocationArgs'' then
        Some (NodeResourcesBalancedAllocationArgs_Object zero_TypeMeta \<lparr>Resources = []\<rparr>)
      else if GVK_Kind gvk = ''PodTopologySpreadArgs'' then
        Some (PodTopologySpreadArgs_Object zero_TypeMeta \<lparr>DefaultingType = []\<rparr>)
      else if GVK_Kind gvk = ''NodeResourcesFitArgs'' then
        Some (NodeResourcesFitArgs_Object zero_TypeMeta
          \<lparr>IgnoredResources = [], IgnoredResourceGroups = [], ScoringStrategy = None\<rparr>)
      else None)"

definition TypeMeta_of :: "GroupVersionKind \<Rightarrow> TypeMeta" where
  "TypeMeta_of gvk =
     \<lparr>Kind = GVK_Kind gvk,
      APIVersion = (if GVK_Group gvk = [] then GVK_Version gvk
                    else GVK_Group gvk @ ''/'' @ GVK_Version gvk)\<rparr>"

fun registry_SetGroupVersionKind :: "GroupVersionKind \<Rightarrow> ArgsObject \<Rightarrow> ArgsObject" where
  "registry_SetGroupVersionKind gvk (DefaultPreemptionArgs_Object tm a) =
     DefaultPreemptionArgs_Object (TypeMeta_of gvk) a"
| "registry_SetGroupVersionKind gvk (InterPodAffinityArgs_Object tm a) =
     InterPodAffinityArgs_Object (TypeMeta_of gvk) a"
| "registry_SetGroupVersionKind gvk (VolumeBindingArgs_Object tm a) =
     VolumeBindingArgs_Object (TypeMeta_of gvk) a"
| "registry_SetGroupVersionKind gvk (NodeResourcesBalancedAllocationArgs_Object tm a) =
     NodeResourcesBalancedAllocationArgs_Object (TypeMeta_of gvk) a"
| "registry_SetGroupVersionKind gvk (PodTopologySpreadArgs_Object tm a) =
     PodTopologySpreadArgs_Object (TypeMeta_of gvk) a"
| "registry_SetGroupVersionKind gvk (NodeResourcesFitArgs_Object tm a) =
     NodeResourcesFitArgs_Object (TypeMeta_of gvk) a"

text \<open>The values the constants have in the packages they come from.\<close>

definition k0 :: constants where
  "k0 = \<lparr>DefaultSchedulerName = ''default-scheduler'',
         DefaultPercentageOfNodesToScore = 0,
         SchedulerDefaultLockObjectNamespace = ''kube-system'',
         SchedulerDefaultLockObjectName = ''kube-scheduler'',
         SchemeGroupVersion = \<lparr>Group = ''kubescheduler.config.k8s.io'', Version = ''v1''\<rparr>,
         MaxCustomPriorityScore = 10,
         VolumeCapacityPriority_Enabled = False,
         ResourceCPU = ''cpu'',
         ResourceMemory = ''memory'',
         LeastAllocated = ''LeastAllocated'',
         SystemDefaulting = ''System''\<rparr>"

text \<open>
  A leader-election defaulter of the usual shape (fill what is unset), a plugin set that
  enables a few plugins at the multi-point and the bind extension points, and a merge
  that returns the defaults for a nil pipeline and the given pipeline otherwise.
\<close>

definition example_RecommendedDefaults ::
  "LeaderElectionConfiguration \<Rightarrow> LeaderElectionConfiguration"
where
  "example_RecommendedDefaults le =
     le\<lparr>LeaderElect := (case LeaderElect le of None \<Rightarrow> Some True | Some b \<Rightarrow> Some b),
        LeaseDuration := (if LeaseDuration le = 0 then 15000000000 else LeaseDuration le),
        RenewDeadline := (if RenewDeadline le = 0 then 10000000000 else RenewDeadline le),
        RetryPeriod := (if RetryPeriod le = 0 then 2000000000 else RetryPeriod le),
        ResourceLock := (if ResourceLock le = [] then ''leases'' else ResourceLock le)\<rparr>"

definition no_plugins :: PluginSet where
  "no_plugins = \<lparr>Enabled = [], Disabled = []\<rparr>"

definition example_plugins :: "string list \<Rightarrow> string list \<Rightarrow> Plugins" where
  "example_plugins multi bind =
     \<lparr>MultiPoint = \<lparr>Enabled = map (\<lambda>n. \<lparr>Plugin_Name = n, Plugin_Weight = None\<rparr>) multi,
                    Disabled = []\<rparr>,
      PreFilter = no_plugins, Filter = no_plugins, PostFilter = no_plugins,
      Reserve = no_plugins, PreScore = no_plugins, Score = no_plugins, PreBind = no_plugins,
      Bind = \<lparr>Enabled = map (\<lambda>n. \<lparr>Plugin_Name = n, Plugin_Weight = None\<rparr>) bind,
              Disabled = []\<rparr>,
      PostBind = no_plugins, Permit = no_plugins, QueueSort = no_plugins\<rparr>"

definition example_merge :: "Plugins option \<Rightarrow> Plugins option \<Rightarrow> Plugins option" where
  "example_merge defaultPlugins customPlugins =
     (case customPlugins of None \<Rightarrow> defaultPlugins | Some c \<Rightarrow> Some c)"

definition env0 :: "ArgsObject env" where
  "env0 =
     \<lparr>K = k0,
      getDefaultPlugins =
        Some (example_plugins [''VolumeBinding'', ''NodeResourcesFit'', ''NodeName'']
                [''DefaultBinder'']),
      mergePlugins = example_merge,
      scheme_New = registry_New k0,
      scheme_Default = registry_Default k0,
      SetGroupVersionKind = registry_SetGroupVersionKind,
      RecommendedDefaultLeaderElectionConfiguration = example_RecommendedDefaults\<rparr>"

text \<open>
  A profile that configures the NodeName plugin with arguments of unknown type, and a
  profile that also configures VolumeBinding twice.
\<close>

definition example_profile :: "ArgsObject KubeSchedulerProfile" where
  "example_profile =
     \<lparr>SchedulerName = None, Plugins = None,
      PluginConfig =
        [\<lparr>PluginConfig_Name = ''NodeName'', Args = \<lparr>Raw = [], Object = Unknown ''{}''\<rparr>\<rparr>]\<rparr>"

definition example_profile_twice :: "ArgsObject KubeSchedulerProfile" where
  "example_profile_twice =
     \<lparr>SchedulerName = None, Plugins = None,
      PluginConfig =
        [\<lparr>PluginConfig_Name = ''NodeName'', Args = \<lparr>Raw = [], Object = Unknown ''{}''\<rparr>\<rparr>,
         \<lparr>PluginConfig_Name = ''VolumeBinding'',
          Args = \<lparr>Raw = [],
                  Object = Typed (VolumeBindingArgs_Object zero_TypeMeta
                             \<lparr>BindTimeoutSeconds = Some 30, Shape = []\<rparr>)\<rparr>\<rparr>,
         \<lparr>PluginConfig_Name = ''VolumeBinding'',
          Args = \<lparr>Raw = [], Object = Unknown ''{}''\<rparr>\<rparr>]\<rparr>"



subsection \<open>What the loops compute\<close>

text \<open>
  Closed forms of the loops, used to state and prove the lemmas below: what the first
  loop of \<^verbatim>\<open>setDefaults_KubeSchedulerProfile\<close> does to one entry, the entry its second loop
  appends for one name (if any), the names \<^verbatim>\<open>pluginsNames\<close> collects before sorting, and
  the profiles after lines 108-115.
\<close>

definition default_existing :: "'a env \<Rightarrow> 'a PluginConfig \<Rightarrow> 'a PluginConfig" where
  "default_existing env c =
     (case Object (Args c) of
        Unknown u \<Rightarrow> c
      | _ \<Rightarrow> c\<lparr>Args := (Args c)\<lparr>Object := Default_Object env (Object (Args c))\<rparr>\<rparr>)"

definition new_entry :: "'a env \<Rightarrow> string \<Rightarrow> 'a PluginConfig option" where
  "new_entry env name =
     (let gvk = WithKind (SchemeGroupVersion (K env)) (name @ ''Args'') in
      case scheme_New env gvk of
        None \<Rightarrow> None
      | Some args \<Rightarrow>
          Some \<lparr>PluginConfig_Name = name,
                Args = \<lparr>Raw = [], Object = Typed (SetGroupVersionKind env gvk (scheme_Default env args))\<rparr>\<rparr>)"

definition enabled_names :: "Plugins \<Rightarrow> string list" where
  "enabled_names p = map Plugin_Name (concat (map Enabled
     [MultiPoint p, PreFilter p, Filter p, PostFilter p, Reserve p, PreScore p,
      Score p, PreBind p, Bind p, PostBind p, Permit p, QueueSort p]))"

definition name_profiles :: "'a env \<Rightarrow> 'a KubeSchedulerProfile list \<Rightarrow> 'a KubeSchedulerProfile list" where
  "name_profiles env ps =
     (case ps of
        [] \<Rightarrow> [zero_KubeSchedulerProfile\<lparr>SchedulerName := Some (DefaultSchedulerName (K env))\<rparr>]
      | [p] \<Rightarrow> [if SchedulerName p = None then p\<lparr>SchedulerName := Some (DefaultSchedulerName (K env))\<rparr> else p]
      | _ \<Rightarrow> ps)"

section \<open>Properties\<close>

subsection \<open>Loops by index are maps\<close>

lemma fold_index_map:
  assumes step: "\<And>i ys. i < length ys \<Longrightarrow> step i ys = ys[i := f (ys ! i)]"
  shows "n \<le> length xs \<Longrightarrow> fold step [0..<n] xs = map f (take n xs) @ drop n xs"
proof (induction n)
  case 0
  then show ?case by simp
next
  case (Suc n)
  then have n: "n < length xs" by simp
  have len: "length (map f (take n xs) @ drop n xs) = length xs" by simp
  have "fold step [0..<Suc n] xs = step n (map f (take n xs) @ drop n xs)"
    using Suc by simp
  also have "\<dots> = (map f (take n xs) @ drop n xs)[n := f ((map f (take n xs) @ drop n xs) ! n)]"
    using step[of n "map f (take n xs) @ drop n xs"] n len by simp
  also have "\<dots> = map f (take (Suc n) xs) @ drop (Suc n) xs"
    using n by (simp add: take_Suc_conv_app_nth nth_append list_update_append Cons_nth_drop_Suc[symmetric])
  finally show ?case .
qed

lemma fold_index_map_all:
  assumes "\<And>i ys. i < length ys \<Longrightarrow> step i ys = ys[i := f (ys ! i)]"
  shows "fold step [0..<length xs] xs = map f xs"
  using fold_index_map[OF assms, of "length xs" xs] by simp

lemma existing_step_eq:
  "j < length (snd st) \<Longrightarrow>
   existing_step env j st =
     (insert (PluginConfig_Name (snd st ! j)) (fst st), (snd st)[j := default_existing env (snd st ! j)])"
  by (simp add: existing_step_def default_existing_def Let_def split: Object.splits)

lemma fold_existing_step:
  "n \<le> length pc \<Longrightarrow>
   fold (existing_step env) [0..<n] (ex, pc) =
     (ex \<union> PluginConfig_Name ` set (take n pc), map (default_existing env) (take n pc) @ drop n pc)"
proof (induction n)
  case 0
  then show ?case by simp
next
  case (Suc n)
  then have n: "n < length pc" by simp
  have nm: "PluginConfig_Name ((map (default_existing env) (take n pc) @ drop n pc) ! n) = PluginConfig_Name (pc ! n)"
    using n by (simp add: nth_append)
  show ?case using Suc n
    by (simp add: existing_step_eq nm take_Suc_conv_app_nth nth_append list_update_append Cons_nth_drop_Suc[symmetric])
qed

lemma append_defaults_eq:
  "append_defaults env ex names pc =
     pc @ List.map_filter (new_entry env) (filter (\<lambda>n. n \<notin> ex) names)"
  by (induction names arbitrary: pc)
     (auto simp: new_entry_def Let_def List.map_filter_simps split: option.splits)

lemma new_entry_name: "new_entry env name = Some c \<Longrightarrow> PluginConfig_Name c = name"
  by (auto simp: new_entry_def Let_def split: option.splits)

lemma map_filter_names:
  "map PluginConfig_Name (List.map_filter (new_entry env) names) =
     filter (\<lambda>n. new_entry env n \<noteq> None) names"
  by (induction names) (auto simp: List.map_filter_simps new_entry_name split: option.splits)

lemma setDefaults_KubeSchedulerProfile_eq:
  "setDefaults_KubeSchedulerProfile env prof =
     \<lparr>SchedulerName = SchedulerName prof,
      Plugins = mergePlugins env (getDefaultPlugins env) (Plugins prof),
      PluginConfig =
        map (default_existing env) (PluginConfig prof) @
        List.map_filter (new_entry env)
          (filter (\<lambda>n. n \<notin> PluginConfig_Name ` set (PluginConfig prof))
             (pluginsNames (mergePlugins env (getDefaultPlugins env) (Plugins prof))))\<rparr>"
  by (simp add: setDefaults_KubeSchedulerProfile_def Let_def fold_existing_step append_defaults_eq)

lemma fold_insert_names: "fold (\<lambda>pg n. insert (Plugin_Name pg) n) ps n = n \<union> Plugin_Name ` set ps"
  by (induction ps arbitrary: n) auto

lemma fold_fold_insert:
  "fold (\<lambda>e n. fold (\<lambda>pg n. insert (Plugin_Name pg) n) (Enabled e) n) es n =
     n \<union> Plugin_Name ` (\<Union>e \<in> set es. set (Enabled e))"
  by (induction es arbitrary: n) (auto simp: fold_insert_names)

lemma pluginsNames_Some: "pluginsNames (Some p) = sorted_list_of_set (set (enabled_names p))"
  unfolding pluginsNames_def enabled_names_def Let_def option.case fold_fold_insert
  by (simp add: image_Un Un_assoc)

lemma pluginsNames_sorted: "sorted_wrt (<) (pluginsNames p)"
  by (cases p) (simp_all add: pluginsNames_Some, simp add: pluginsNames_def)

lemma fold_profile_step:
  "fold (profile_step env) [0..<length ps] ps = map (setDefaults_KubeSchedulerProfile env) ps"
  by (rule fold_index_map_all) (simp add: profile_step_def)

lemma default_Parallelism_eq:
  "default_Parallelism obj =
     obj\<lparr>Parallelism := (case Parallelism obj of None \<Rightarrow> Some 16 | Some p \<Rightarrow> Some p)\<rparr>"
  by (simp add: default_Parallelism_def split: option.splits)

lemma default_SchedulerName_eq:
  "default_SchedulerName env obj = obj\<lparr>Profiles := name_profiles env (Profiles obj)\<rparr>"
  by (cases "Profiles obj" rule: list.exhaust; cases "tl (Profiles obj)")
     (auto simp add: default_SchedulerName_def Let_def name_profiles_def zero_KubeSchedulerProfile_def)

lemma default_Profiles_eq:
  "default_Profiles env obj =
     obj\<lparr>Profiles := map (setDefaults_KubeSchedulerProfile env) (Profiles obj)\<rparr>"
  by (simp add: default_Profiles_def fold_profile_step)

lemma default_PercentageOfNodesToScore_eq:
  "default_PercentageOfNodesToScore env obj =
     obj\<lparr>PercentageOfNodesToScore :=
           (case PercentageOfNodesToScore obj of
              None \<Rightarrow> Some (DefaultPercentageOfNodesToScore (K env)) | Some p \<Rightarrow> Some p)\<rparr>"
  by (simp add: default_PercentageOfNodesToScore_def split: option.splits)

lemma default_Backoff_eq:
  "default_Backoff obj =
     obj\<lparr>PodInitialBackoffSeconds :=
           (case PodInitialBackoffSeconds obj of None \<Rightarrow> Some 1 | Some p \<Rightarrow> Some p),
         PodMaxBackoffSeconds :=
           (case PodMaxBackoffSeconds obj of None \<Rightarrow> Some 10 | Some p \<Rightarrow> Some p)\<rparr>"
  by (simp add: default_Backoff_def Let_def split: option.splits)

lemma default_Profiling_eq:
  "default_Profiling obj =
     obj\<lparr>EnableProfiling :=
           (case EnableProfiling obj of None \<Rightarrow> Some True | Some b \<Rightarrow> Some b),
         EnableContentionProfiling :=
           (case EnableContentionProfiling obj of
              Some b \<Rightarrow> Some b
            | None \<Rightarrow> (if EnableProfiling obj = Some False then None else Some True))\<rparr>"
  by (auto simp add: default_Profiling_def Let_def split: option.splits)

lemma SetDefaults_KubeSchedulerConfiguration_eq:
  "SetDefaults_KubeSchedulerConfiguration env obj =
     \<lparr>Parallelism = (case Parallelism obj of None \<Rightarrow> Some 16 | Some p \<Rightarrow> Some p),
      LeaderElection =
        RecommendedDefaultLeaderElectionConfiguration env
          (default_LeaderElection (K env) (LeaderElection obj)),
      ClientConnection = default_ClientConnection (ClientConnection obj),
      EnableProfiling = (case EnableProfiling obj of None \<Rightarrow> Some True | Some b \<Rightarrow> Some b),
      EnableContentionProfiling =
        (case EnableContentionProfiling obj of
           Some b \<Rightarrow> Some b
         | None \<Rightarrow> (if EnableProfiling obj = Some False then None else Some True)),
      PercentageOfNodesToScore =
        (case PercentageOfNodesToScore obj of
           None \<Rightarrow> Some (DefaultPercentageOfNodesToScore (K env)) | Some p \<Rightarrow> Some p),
      PodInitialBackoffSeconds =
        (case PodInitialBackoffSeconds obj of None \<Rightarrow> Some 1 | Some p \<Rightarrow> Some p),
      PodMaxBackoffSeconds =
        (case PodMaxBackoffSeconds obj of None \<Rightarrow> Some 10 | Some p \<Rightarrow> Some p),
      Profiles = map (setDefaults_KubeSchedulerProfile env) (name_profiles env (Profiles obj))\<rparr>"
  by (simp add: SetDefaults_KubeSchedulerConfiguration_def Let_def default_Parallelism_eq
        default_SchedulerName_eq default_Profiles_eq default_PercentageOfNodesToScore_eq
        default_Backoff_eq default_Profiling_eq)

subsection \<open>Fields of the defaulted configuration and profile\<close>

lemma setDefaults_KubeSchedulerProfile_SchedulerName:
  "SchedulerName (setDefaults_KubeSchedulerProfile env prof) = SchedulerName prof"
  by (simp add: setDefaults_KubeSchedulerProfile_eq)

lemma SD_Profiles:
  "Profiles (SetDefaults_KubeSchedulerConfiguration env obj) =
     map (setDefaults_KubeSchedulerProfile env) (name_profiles env (Profiles obj))"
  by (simp add: SetDefaults_KubeSchedulerConfiguration_eq)

lemma map_SchedulerName_defaulted:
  "map SchedulerName (map (setDefaults_KubeSchedulerProfile env) ps) = map SchedulerName ps"
  by (induction ps) (simp_all add: setDefaults_KubeSchedulerProfile_SchedulerName)

lemma name_profiles_Nil:
  "name_profiles env [] = [zero_KubeSchedulerProfile\<lparr>SchedulerName := Some (DefaultSchedulerName (K env))\<rparr>]"
  by (simp add: name_profiles_def)

lemma name_profiles_single:
  "name_profiles env [p] =
     [if SchedulerName p = None then p\<lparr>SchedulerName := Some (DefaultSchedulerName (K env))\<rparr> else p]"
  by (simp add: name_profiles_def)

lemma name_profiles_many: "2 \<le> length ps \<Longrightarrow> name_profiles env ps = ps"
  by (cases ps; cases "tl ps") (simp_all add: name_profiles_def)

lemma name_profiles_nonempty: "name_profiles env ps \<noteq> []"
  by (cases ps; cases "tl ps") (simp_all add: name_profiles_def)

lemma default_LeaderElection_ResourceLock:
  "ResourceLock (default_LeaderElection k le) =
     (if ResourceLock le = [] then ''leases'' else ResourceLock le)"
  by (simp add: default_LeaderElection_def Let_def)

lemma default_ClientConnection_eq:
  "default_ClientConnection cc =
     cc\<lparr>ContentType := (if ContentType cc = [] then ''application/vnd.kubernetes.protobuf'' else ContentType cc),
        QPS := (if QPS cc = Float32 0 then Float32 50 else QPS cc),
        Burst := (if Burst cc = 0 then 100 else Burst cc)\<rparr>"
  by (simp add: default_ClientConnection_def Let_def)

lemma SD_fields:
  "Parallelism (SetDefaults_KubeSchedulerConfiguration env obj) =
     (case Parallelism obj of None \<Rightarrow> Some 16 | Some p \<Rightarrow> Some p)"
  "LeaderElection (SetDefaults_KubeSchedulerConfiguration env obj) =
     RecommendedDefaultLeaderElectionConfiguration env
          (default_LeaderElection (K env) (LeaderElection obj))"
  "ClientConnection (SetDefaults_KubeSchedulerConfiguration env obj) =
     default_ClientConnection (ClientConnection obj)"
  "EnableProfiling (SetDefaults_KubeSchedulerConfiguration env obj) =
     (case EnableProfiling obj of None \<Rightarrow> Some True | Some b \<Rightarrow> Some b)"
  "EnableContentionProfiling (SetDefaults_KubeSchedulerConfiguration env obj) =
        (case EnableContentionProfiling obj of
           Some b \<Rightarrow> Some b
         | None \<Rightarrow> (if EnableProfiling obj = Some False then None else Some True))"
  "PodInitialBackoffSeconds (SetDefaults_KubeSchedulerConfiguration env obj) =
        (case PodInitialBackoffSeconds obj of None \<Rightarrow> Some 1 | Some p \<Rightarrow> Some p)"
  "PodMaxBackoffSeconds (SetDefaults_KubeSchedulerConfiguration env obj) =
        (case PodMaxBackoffSeconds obj of None \<Rightarrow> Some 10 | Some p \<Rightarrow> Some p)"
  by (simp_all add: SetDefaults_KubeSchedulerConfiguration_eq)

lemma default_existing_Unknown:
  "Object (Args c) = Unknown u \<Longrightarrow> default_existing env c = c"
  by (simp add: default_existing_def)

lemma default_existing_name:
  "PluginConfig_Name (default_existing env c) = PluginConfig_Name c"
  by (simp add: default_existing_def split: Object.splits)

lemma new_entry_None:
  "scheme_New env (WithKind (SchemeGroupVersion (K env)) (name @ ''Args'')) = None \<Longrightarrow>
   new_entry env name = None"
  by (simp add: new_entry_def Let_def)

lemma map_filter_name_set:
  "PluginConfig_Name ` set (List.map_filter (new_entry env) names) =
     {n \<in> set names. new_entry env n \<noteq> None}"
proof -
  have "PluginConfig_Name ` set (List.map_filter (new_entry env) names) =
        set (map PluginConfig_Name (List.map_filter (new_entry env) names))"
    by simp
  also have "\<dots> = set (filter (\<lambda>n. new_entry env n \<noteq> None) names)"
    by (simp only: map_filter_names)
  finally show ?thesis by simp
qed

lemma PluginConfig_defaulted:
  "PluginConfig (setDefaults_KubeSchedulerProfile env prof) =
        map (default_existing env) (PluginConfig prof) @
        List.map_filter (new_entry env)
          (filter (\<lambda>n. n \<notin> PluginConfig_Name ` set (PluginConfig prof))
             (pluginsNames (mergePlugins env (getDefaultPlugins env) (Plugins prof))))"
  by (simp add: setDefaults_KubeSchedulerProfile_eq)

lemma env0_fields:
  "K env0 = k0"
  "mergePlugins env0 = example_merge"
  "scheme_New env0 = registry_New k0"
  "scheme_Default env0 = registry_Default k0"
  "SetGroupVersionKind env0 = registry_SetGroupVersionKind"
  "RecommendedDefaultLeaderElectionConfiguration env0 = example_RecommendedDefaults"
  by (simp_all add: env0_def)

lemma new_entry_eq_None:
  "new_entry env name = None \<longleftrightarrow>
     scheme_New env (WithKind (SchemeGroupVersion (K env)) (name @ ''Args'')) = None"
  by (simp add: new_entry_def Let_def split: option.splits)

lemma Plugins_defaulted:
  "Plugins (setDefaults_KubeSchedulerProfile env prof) =
     mergePlugins env (getDefaultPlugins env) (Plugins prof)"
  by (simp add: setDefaults_KubeSchedulerProfile_eq)

lemma PluginConfig_names:
  "map PluginConfig_Name (PluginConfig (setDefaults_KubeSchedulerProfile env prof)) =
    map PluginConfig_Name (PluginConfig prof) @
    filter (\<lambda>n. n \<notin> PluginConfig_Name ` set (PluginConfig prof) \<and>
               scheme_New env (WithKind (SchemeGroupVersion (K env)) (n @ ''Args'')) \<noteq> None)
      (pluginsNames (Plugins (setDefaults_KubeSchedulerProfile env prof)))"
proof -
  have "Plugins (setDefaults_KubeSchedulerProfile env prof) =
          mergePlugins env (getDefaultPlugins env) (Plugins prof)"
    by (simp add: setDefaults_KubeSchedulerProfile_eq)
  then show ?thesis
    by (simp add: PluginConfig_defaulted map_filter_names default_existing_name comp_def
          new_entry_eq_None conj_commute)
qed

lemma count_by_name:
  "length (filter (\<lambda>c. PluginConfig_Name c = name) cs) =
     length (filter (\<lambda>n. n = name) (map PluginConfig_Name cs))"
  by (induction cs) simp_all

lemma count_distinct:
  "distinct xs \<Longrightarrow> length (filter (\<lambda>n. n = x) xs) = (if x \<in> set xs then 1 else 0)"
  by (induction xs) auto

lemma pluginsNames_distinct: "distinct (pluginsNames p)"
  using pluginsNames_sorted [of p] strict_sorted_iff by blast

lemma example_names:
  "pluginsNames (mergePlugins env0 (getDefaultPlugins env0) None) =
     [''DefaultBinder'', ''NodeName'', ''NodeResourcesFit'', ''VolumeBinding'']"
  by (simp add: env0_def example_merge_def example_plugins_def no_plugins_def pluginsNames_Some
        enabled_names_def sorted_list_of_set_sort_remdups)

lemma default_existing_idem:
  assumes "\<forall>a. scheme_Default env (scheme_Default env a) = scheme_Default env a"
  shows "default_existing env (default_existing env c) = default_existing env c"
  using assms by (cases "Object (Args c)") (simp_all add: default_existing_def Default_Object_def)

lemma default_existing_new_entry:
  assumes "\<forall>g a. scheme_Default env (SetGroupVersionKind env g (scheme_Default env a)) =
                  SetGroupVersionKind env g (scheme_Default env a)"
    and "new_entry env n = Some c"
  shows "default_existing env c = c"
  using assms
  by (auto simp add: new_entry_def Let_def default_existing_def Default_Object_def
        split: option.splits)

lemma map_filter_all_None: "(\<And>n. n \<in> set ns \<Longrightarrow> f n = None) \<Longrightarrow> List.map_filter f ns = []"
  by (induction ns) (simp_all add: List.map_filter_simps)

lemma map_default_existing_new:
  assumes "\<forall>g a. scheme_Default env (SetGroupVersionKind env g (scheme_Default env a)) =
                  SetGroupVersionKind env g (scheme_Default env a)"
  shows "map (default_existing env) (List.map_filter (new_entry env) ns) =
           List.map_filter (new_entry env) ns"
proof (induction ns)
  case Nil
  then show ?case by (simp add: List.map_filter_simps)
next
  case (Cons n ns)
  then show ?case
    by (cases "new_entry env n")
       (simp_all add: List.map_filter_simps default_existing_new_entry [OF assms])
qed

lemma setDefaults_KubeSchedulerProfile_idem:
  assumes merge: "\<forall>p. mergePlugins env (getDefaultPlugins env)
                        (mergePlugins env (getDefaultPlugins env) p) =
                      mergePlugins env (getDefaultPlugins env) p"
    and idem: "\<forall>a. scheme_Default env (scheme_Default env a) = scheme_Default env a"
    and tagged: "\<forall>g a. scheme_Default env (SetGroupVersionKind env g (scheme_Default env a)) =
                  SetGroupVersionKind env g (scheme_Default env a)"
  shows "setDefaults_KubeSchedulerProfile env (setDefaults_KubeSchedulerProfile env prof) =
           setDefaults_KubeSchedulerProfile env prof"
proof -
  define P where "P = mergePlugins env (getDefaultPlugins env) (Plugins prof)"
  define N where "N = PluginConfig_Name ` set (PluginConfig prof)"
  define new where "new = List.map_filter (new_entry env) (filter (\<lambda>n. n \<notin> N) (pluginsNames P))"
  define old where "old = map (default_existing env) (PluginConfig prof)"
  have once: "setDefaults_KubeSchedulerProfile env prof =
      \<lparr>SchedulerName = SchedulerName prof, Plugins = P, PluginConfig = old @ new\<rparr>"
    by (simp add: setDefaults_KubeSchedulerProfile_eq P_def N_def new_def old_def)
  have PP: "mergePlugins env (getDefaultPlugins env) P = P"
    using merge by (simp add: P_def)
  have old_old: "map (default_existing env) old = old"
    by (simp add: old_def default_existing_idem [OF idem])
  have new_new: "map (default_existing env) new = new"
    by (simp add: new_def map_default_existing_new [OF tagged])
  have "PluginConfig_Name ` set old = N"
    by (simp add: old_def N_def image_image default_existing_name)
  moreover have "PluginConfig_Name ` set new =
      {n \<in> set (pluginsNames P). n \<notin> N \<and> new_entry env n \<noteq> None}"
    by (auto simp add: new_def map_filter_name_set)
  ultimately have names: "PluginConfig_Name ` set (old @ new) =
      N \<union> {n \<in> set (pluginsNames P). n \<notin> N \<and> new_entry env n \<noteq> None}"
    by (simp add: image_Un)
  have none: "List.map_filter (new_entry env)
      (filter (\<lambda>n. n \<notin> PluginConfig_Name ` set (old @ new)) (pluginsNames P)) = []"
  proof (rule map_filter_all_None)
    fix n
    assume a: "n \<in> set (filter (\<lambda>n. n \<notin> PluginConfig_Name ` set (old @ new)) (pluginsNames P))"
    have "n \<in> set (pluginsNames P) \<and>
          n \<notin> N \<union> {n \<in> set (pluginsNames P). n \<notin> N \<and> new_entry env n \<noteq> None}"
      using a unfolding names by auto
    then show "new_entry env n = None" by auto
  qed
  have "setDefaults_KubeSchedulerProfile env
          \<lparr>SchedulerName = SchedulerName prof, Plugins = P, PluginConfig = old @ new\<rparr> =
        \<lparr>SchedulerName = SchedulerName prof, Plugins = P, PluginConfig = old @ new\<rparr>"
    by (simp only: setDefaults_KubeSchedulerProfile_eq KubeSchedulerProfile.simps PP none
          map_append old_old new_new append_Nil2)
  then show ?thesis by (simp only: once)
qed

lemma name_profiles_defaulted:
  "name_profiles env (map (setDefaults_KubeSchedulerProfile env) (name_profiles env ps)) =
     map (setDefaults_KubeSchedulerProfile env) (name_profiles env ps)"
proof (cases "2 \<le> length ps")
  case True
  then show ?thesis by (simp add: name_profiles_many)
next
  case False
  then consider "ps = []" | p where "ps = [p]"
    by (cases ps; cases "tl ps") auto
  then show ?thesis
    by cases
      (auto simp add: name_profiles_Nil name_profiles_single
         setDefaults_KubeSchedulerProfile_SchedulerName)
qed

lemma default_LeaderElection_eq:
  "default_LeaderElection k le =
     le\<lparr>ResourceLock := (if ResourceLock le = [] then ''leases'' else ResourceLock le),
        ResourceNamespace :=
          (if ResourceNamespace le = [] then SchedulerDefaultLockObjectNamespace k
           else ResourceNamespace le),
        ResourceName :=
          (if ResourceName le = [] then SchedulerDefaultLockObjectName k else ResourceName le)\<rparr>"
  by (simp add: default_LeaderElection_def Let_def)

lemma LeaderElection_idem:
  assumes R_idem: "\<forall>le. RecommendedDefaultLeaderElectionConfiguration env
                        (RecommendedDefaultLeaderElectionConfiguration env le) =
                      RecommendedDefaultLeaderElectionConfiguration env le"
    and keeps: "\<forall>le. (ResourceLock le \<noteq> [] \<longrightarrow>
                        ResourceLock (RecommendedDefaultLeaderElectionConfiguration env le) \<noteq> []) \<and>
                     (ResourceNamespace le \<noteq> [] \<longrightarrow>
                        ResourceNamespace (RecommendedDefaultLeaderElectionConfiguration env le) \<noteq> []) \<and>
                     (ResourceName le \<noteq> [] \<longrightarrow>
                        ResourceName (RecommendedDefaultLeaderElectionConfiguration env le) \<noteq> [])"
  shows "RecommendedDefaultLeaderElectionConfiguration env (default_LeaderElection k
           (RecommendedDefaultLeaderElectionConfiguration env (default_LeaderElection k le))) =
         RecommendedDefaultLeaderElectionConfiguration env (default_LeaderElection k le)"
proof -
  define x where "x = default_LeaderElection k le"
  define y where "y = RecommendedDefaultLeaderElectionConfiguration env x"
  have "ResourceLock x \<noteq> []"
    by (simp add: x_def default_LeaderElection_eq)
  then have lock: "ResourceLock y \<noteq> []"
    using keeps by (simp add: y_def)
  have ns: "(if ResourceNamespace y = [] then SchedulerDefaultLockObjectNamespace k
             else ResourceNamespace y) = ResourceNamespace y"
  proof (cases "SchedulerDefaultLockObjectNamespace k = []")
    case True
    then show ?thesis by simp
  next
    case False
    then have "ResourceNamespace x \<noteq> []" by (simp add: x_def default_LeaderElection_eq)
    then have "ResourceNamespace y \<noteq> []" using keeps by (simp add: y_def)
    then show ?thesis by simp
  qed
  have nm: "(if ResourceName y = [] then SchedulerDefaultLockObjectName k
             else ResourceName y) = ResourceName y"
  proof (cases "SchedulerDefaultLockObjectName k = []")
    case True
    then show ?thesis by simp
  next
    case False
    then have "ResourceName x \<noteq> []" by (simp add: x_def default_LeaderElection_eq)
    then have "ResourceName y \<noteq> []" using keeps by (simp add: y_def)
    then show ?thesis by simp
  qed
  have "default_LeaderElection k y = y"
    by (simp add: default_LeaderElection_eq lock ns nm)
  then show ?thesis
    using R_idem by (simp add: x_def [symmetric] y_def [symmetric]) (simp add: y_def)
qed

lemma default_ClientConnection_idem:
  "default_ClientConnection (default_ClientConnection cc) = default_ClientConnection cc"
  by (simp add: default_ClientConnection_eq)

subsection \<open>Helpers for the argument defaulters\<close>

lemma fold_weight_step:
  "fold weight_step [0..<length rs] rs =
     map (\<lambda>r. r\<lparr>ResourceSpec_Weight := (if ResourceSpec_Weight r = 0 then 1 else ResourceSpec_Weight r)\<rparr>) rs"
  by (rule fold_index_map_all) (simp add: weight_step_def)

lemma sint_ucast_down:
  assumes "- (2 ^ 31) \<le> sint (w :: 64 word)" "sint w < 2 ^ 31"
  shows "sint (ucast w :: 32 word) = sint w"
proof -
  have "sint (ucast w :: 32 word) = signed_take_bit 31 (uint w)"
    by (simp add: signed_ucast_eq)
  also have "\<dots> = signed_take_bit 31 (take_bit 64 (sint w))"
    by (simp add: uint_sint)
  also have "\<dots> = signed_take_bit 31 (sint w)"
    by (simp add: signed_take_bit_take_bit)
  also have "\<dots> = sint w"
    using assms by (simp add: signed_take_bit_int_eq_self)
  finally show ?thesis .
qed

subsection \<open>The example registry and collaborators keep their contracts\<close>

lemma fold_weight_step_len:
  "length rs = n \<Longrightarrow>
   fold weight_step [0..<n] rs =
     map (\<lambda>r. r\<lparr>ResourceSpec_Weight := (if ResourceSpec_Weight r = 0 then 1 else ResourceSpec_Weight r)\<rparr>) rs"
  using fold_weight_step [of rs] by simp

lemma weight_map_idem:
  "map (\<lambda>r. r\<lparr>ResourceSpec_Weight := (if ResourceSpec_Weight r = 0 then 1 else ResourceSpec_Weight r)\<rparr>)
     (map (\<lambda>r. r\<lparr>ResourceSpec_Weight := (if ResourceSpec_Weight r = 0 then 1 else ResourceSpec_Weight r)\<rparr>) rs) =
   map (\<lambda>r. r\<lparr>ResourceSpec_Weight := (if ResourceSpec_Weight r = 0 then 1 else ResourceSpec_Weight r)\<rparr>) rs"
  by (induction rs) simp_all

lemma weight_map_default:
  "map (\<lambda>r. r\<lparr>ResourceSpec_Weight := (if ResourceSpec_Weight r = 0 then 1 else ResourceSpec_Weight r)\<rparr>)
     (defaultResourceSpec k) = defaultResourceSpec k"
  by (simp add: defaultResourceSpec_def)

lemma SetDefaults_DefaultPreemptionArgs_idem:
  "SetDefaults_DefaultPreemptionArgs (SetDefaults_DefaultPreemptionArgs a) =
     SetDefaults_DefaultPreemptionArgs a"
  by (simp add: SetDefaults_DefaultPreemptionArgs_def Let_def)

lemma SetDefaults_InterPodAffinityArgs_idem:
  "SetDefaults_InterPodAffinityArgs (SetDefaults_InterPodAffinityArgs a) =
     SetDefaults_InterPodAffinityArgs a"
  by (simp add: SetDefaults_InterPodAffinityArgs_def)

lemma SetDefaults_VolumeBindingArgs_idem:
  "SetDefaults_VolumeBindingArgs k (SetDefaults_VolumeBindingArgs k a) =
     SetDefaults_VolumeBindingArgs k a"
  by (simp add: SetDefaults_VolumeBindingArgs_def Let_def)

lemma SetDefaults_NodeResourcesBalancedAllocationArgs_idem:
  "SetDefaults_NodeResourcesBalancedAllocationArgs k
     (SetDefaults_NodeResourcesBalancedAllocationArgs k a) =
   SetDefaults_NodeResourcesBalancedAllocationArgs k a"
proof (cases "Resources a = []")
  case True
  then show ?thesis
    by (simp add: SetDefaults_NodeResourcesBalancedAllocationArgs_def fold_weight_step
          weight_map_default)
next
  case False
  then show ?thesis
    by (simp add: SetDefaults_NodeResourcesBalancedAllocationArgs_def fold_weight_step_len
          weight_map_idem)
qed

lemma SetDefaults_PodTopologySpreadArgs_idem:
  "SetDefaults_PodTopologySpreadArgs k (SetDefaults_PodTopologySpreadArgs k a) =
     SetDefaults_PodTopologySpreadArgs k a"
  by (simp add: SetDefaults_PodTopologySpreadArgs_def)

lemma SetDefaults_NodeResourcesFitArgs_eq:
  "SetDefaults_NodeResourcesFitArgs k a =
     a\<lparr>ScoringStrategy :=
         Some (case ScoringStrategy a of
                 None \<Rightarrow> \<lparr>ScoringStrategy_Type = LeastAllocated k,
                           ScoringStrategy_Resources = defaultResourceSpec k,
                           RequestedToCapacityRatio = None\<rparr>
               | Some s \<Rightarrow>
                   s\<lparr>ScoringStrategy_Resources :=
                       (if ScoringStrategy_Resources s = [] then defaultResourceSpec k
                        else map (\<lambda>r. r\<lparr>ResourceSpec_Weight :=
                               (if ResourceSpec_Weight r = 0 then 1 else ResourceSpec_Weight r)\<rparr>)
                               (ScoringStrategy_Resources s))\<rparr>)\<rparr>"
  by (cases "ScoringStrategy a")
     (simp_all add: SetDefaults_NodeResourcesFitArgs_def Let_def fold_weight_step
        weight_map_default)

lemma SetDefaults_NodeResourcesFitArgs_idem:
  "SetDefaults_NodeResourcesFitArgs k (SetDefaults_NodeResourcesFitArgs k a) =
     SetDefaults_NodeResourcesFitArgs k a"
  by (cases "ScoringStrategy a")
     (simp_all add: SetDefaults_NodeResourcesFitArgs_eq weight_map_idem weight_map_default)

lemma registry_Default_idem: "registry_Default k (registry_Default k a) = registry_Default k a"
  by (cases a)
     (simp_all add: SetDefaults_DefaultPreemptionArgs_idem SetDefaults_InterPodAffinityArgs_idem
        SetDefaults_VolumeBindingArgs_idem SetDefaults_NodeResourcesBalancedAllocationArgs_idem
        SetDefaults_PodTopologySpreadArgs_idem SetDefaults_NodeResourcesFitArgs_idem)

lemma registry_Default_tagged:
  "registry_Default k (registry_SetGroupVersionKind g a) =
     registry_SetGroupVersionKind g (registry_Default k a)"
  by (cases a) simp_all

lemma example_merge_idem:
  "example_merge d (example_merge d p) = example_merge d p"
  by (cases p; cases d) (simp_all add: example_merge_def)

lemma example_RecommendedDefaults_idem:
  "example_RecommendedDefaults (example_RecommendedDefaults le) = example_RecommendedDefaults le"
  by (simp add: example_RecommendedDefaults_def split: option.splits)

lemma example_RecommendedDefaults_keeps:
  "(ResourceLock le \<noteq> [] \<longrightarrow> ResourceLock (example_RecommendedDefaults le) \<noteq> []) \<and>
   (ResourceNamespace le \<noteq> [] \<longrightarrow> ResourceNamespace (example_RecommendedDefaults le) \<noteq> []) \<and>
   (ResourceName le \<noteq> [] \<longrightarrow> ResourceName (example_RecommendedDefaults le) \<noteq> [])"
  by (simp add: example_RecommendedDefaults_def)

subsection \<open>Profiling flags\<close>

text \<open>
  Claim C5. The profiling default is resolved first: an unset \<^verbatim>\<open>EnableProfiling\<close> becomes
  true and a set one is kept. Then an unset \<^verbatim>\<open>EnableContentionProfiling\<close> becomes true
  exactly when the resolved \<^verbatim>\<open>EnableProfiling\<close> is true, and stays unset when
  \<^verbatim>\<open>EnableProfiling\<close> was explicitly false; a set \<^verbatim>\<open>EnableContentionProfiling\<close> is never
  changed.
\<close>

theorem contention_profiling_default:
  "EnableProfiling (SetDefaults_KubeSchedulerConfiguration env obj) =
     (case EnableProfiling obj of None \<Rightarrow> Some True | Some b \<Rightarrow> Some b) \<and>
   EnableContentionProfiling (SetDefaults_KubeSchedulerConfiguration env obj) =
     (case EnableContentionProfiling obj of
        Some c \<Rightarrow> Some c
      | None \<Rightarrow>
          (if EnableProfiling (SetDefaults_KubeSchedulerConfiguration env obj) = Some True
           then Some True else None))"
  by (simp add: SetDefaults_KubeSchedulerConfiguration_eq split: option.splits)

text \<open>
  The empty configuration gets both flags true; with profiling explicitly off the
  contention flag stays unset; an explicit contention flag is kept.
\<close>

theorem contention_profiling_default_witness:
  "EnableProfiling (SetDefaults_KubeSchedulerConfiguration env0 zero_KubeSchedulerConfiguration) = Some True \<and>
   EnableContentionProfiling (SetDefaults_KubeSchedulerConfiguration env0 zero_KubeSchedulerConfiguration) = Some True \<and>
   EnableContentionProfiling (SetDefaults_KubeSchedulerConfiguration env0
      (zero_KubeSchedulerConfiguration\<lparr>EnableProfiling := Some False\<rparr>)) = None \<and>
   EnableContentionProfiling (SetDefaults_KubeSchedulerConfiguration env0
      (zero_KubeSchedulerConfiguration\<lparr>EnableContentionProfiling := Some False\<rparr>)) = Some False"
  using contention_profiling_default [of env0 zero_KubeSchedulerConfiguration]
    contention_profiling_default [of env0 "zero_KubeSchedulerConfiguration\<lparr>EnableProfiling := Some False\<rparr>"]
    contention_profiling_default [of env0 "zero_KubeSchedulerConfiguration\<lparr>EnableContentionProfiling := Some False\<rparr>"]
  by (simp add: zero_KubeSchedulerConfiguration_def)

subsection \<open>Volume-binding shape\<close>

text \<open>
  Claim C6. On arguments with an empty \<^verbatim>\<open>Shape\<close>: with the VolumeCapacityPriority gate
  disabled the shape stays empty; with the gate enabled it becomes the two points
  (0, 0) and (100, \<^verbatim>\<open>int32(MaxCustomPriorityScore)\<close>), whose score is the maximum custom
  priority score itself whenever that constant fits 32 bits. A non-empty \<^verbatim>\<open>Shape\<close> is
  never modified.
\<close>

theorem volume_binding_shape_default:
  "(Shape obj = [] \<and> \<not> VolumeCapacityPriority_Enabled k \<longrightarrow>
      Shape (SetDefaults_VolumeBindingArgs k obj) = []) \<and>
   (Shape obj = [] \<and> VolumeCapacityPriority_Enabled k \<longrightarrow>
      Shape (SetDefaults_VolumeBindingArgs k obj) =
        [\<lparr>Point_Utilization = 0, Point_Score = 0\<rparr>,
         \<lparr>Point_Utilization = 100, Point_Score = ucast (MaxCustomPriorityScore k)\<rparr>] \<and>
      (- (2 ^ 31) \<le> sint (MaxCustomPriorityScore k) \<and> sint (MaxCustomPriorityScore k) < 2 ^ 31 \<longrightarrow>
         map (\<lambda>p. sint (Point_Score p)) (Shape (SetDefaults_VolumeBindingArgs k obj)) =
           [0, sint (MaxCustomPriorityScore k)])) \<and>
   (Shape obj \<noteq> [] \<longrightarrow> Shape (SetDefaults_VolumeBindingArgs k obj) = Shape obj)"
  by (simp add: SetDefaults_VolumeBindingArgs_def Let_def sint_ucast_down)

text \<open>With the constants of the scheduler (maximum score 10), gate off and gate on.\<close>

theorem volume_binding_shape_default_witness:
  "Shape (SetDefaults_VolumeBindingArgs k0 \<lparr>BindTimeoutSeconds = None, Shape = []\<rparr>) = [] \<and>
   Shape (SetDefaults_VolumeBindingArgs (k0\<lparr>VolumeCapacityPriority_Enabled := True\<rparr>)
            \<lparr>BindTimeoutSeconds = None, Shape = []\<rparr>) =
     [\<lparr>Point_Utilization = 0, Point_Score = 0\<rparr>, \<lparr>Point_Utilization = 100, Point_Score = 10\<rparr>] \<and>
   Shape (SetDefaults_VolumeBindingArgs (k0\<lparr>VolumeCapacityPriority_Enabled := True\<rparr>)
            \<lparr>BindTimeoutSeconds = None, Shape = [\<lparr>Point_Utilization = 50, Point_Score = 5\<rparr>]\<rparr>) =
     [\<lparr>Point_Utilization = 50, Point_Score = 5\<rparr>]"
  using volume_binding_shape_default [of "\<lparr>BindTimeoutSeconds = None, Shape = []\<rparr>" k0]
    volume_binding_shape_default [of "\<lparr>BindTimeoutSeconds = None, Shape = []\<rparr>" "k0\<lparr>VolumeCapacityPriority_Enabled := True\<rparr>"]
    volume_binding_shape_default [of "\<lparr>BindTimeoutSeconds = None, Shape = [\<lparr>Point_Utilization = 50, Point_Score = 5\<rparr>]\<rparr>"
           "k0\<lparr>VolumeCapacityPriority_Enabled := True\<rparr>"]
  by (simp add: k0_def)

subsection \<open>Weight normalization\<close>

text \<open>
  Claim C7. In both \<^verbatim>\<open>SetDefaults_NodeResourcesBalancedAllocationArgs\<close> and
  \<^verbatim>\<open>SetDefaults_NodeResourcesFitArgs\<close>, on a non-empty resource list every entry keeps
  its place and name, a weight of 0 becomes 1 and any other weight is unchanged.
\<close>

theorem resource_weight_normalization:
  "(Resources obj \<noteq> [] \<longrightarrow>
      Resources (SetDefaults_NodeResourcesBalancedAllocationArgs k obj) =
        map (\<lambda>r. r\<lparr>ResourceSpec_Weight := (if ResourceSpec_Weight r = 0 then 1 else ResourceSpec_Weight r)\<rparr>)
          (Resources obj)) \<and>
   (ScoringStrategy fit = Some s \<and> ScoringStrategy_Resources s \<noteq> [] \<longrightarrow>
      ScoringStrategy (SetDefaults_NodeResourcesFitArgs k fit) =
        Some (s\<lparr>ScoringStrategy_Resources :=
          map (\<lambda>r. r\<lparr>ResourceSpec_Weight := (if ResourceSpec_Weight r = 0 then 1 else ResourceSpec_Weight r)\<rparr>)
            (ScoringStrategy_Resources s)\<rparr>))"
  by (simp add: SetDefaults_NodeResourcesBalancedAllocationArgs_def
        SetDefaults_NodeResourcesFitArgs_def Let_def fold_weight_step)

text \<open>The list with weights 0 and 3 becomes the list with weights 1 and 3.\<close>

theorem resource_weight_normalization_witness:
  "Resources (SetDefaults_NodeResourcesBalancedAllocationArgs k0
      \<lparr>Resources = [\<lparr>ResourceSpec_Name = ''cpu'', ResourceSpec_Weight = 0\<rparr>,
                    \<lparr>ResourceSpec_Name = ''memory'', ResourceSpec_Weight = 3\<rparr>]\<rparr>) =
     [\<lparr>ResourceSpec_Name = ''cpu'', ResourceSpec_Weight = 1\<rparr>,
      \<lparr>ResourceSpec_Name = ''memory'', ResourceSpec_Weight = 3\<rparr>] \<and>
   ScoringStrategy (SetDefaults_NodeResourcesFitArgs k0
      \<lparr>IgnoredResources = [], IgnoredResourceGroups = [],
       ScoringStrategy = Some \<lparr>ScoringStrategy_Type = ''MostAllocated'',
         ScoringStrategy_Resources = [\<lparr>ResourceSpec_Name = ''cpu'', ResourceSpec_Weight = 0\<rparr>,
                                      \<lparr>ResourceSpec_Name = ''memory'', ResourceSpec_Weight = 3\<rparr>],
         RequestedToCapacityRatio = None\<rparr>\<rparr>) =
     Some \<lparr>ScoringStrategy_Type = ''MostAllocated'',
           ScoringStrategy_Resources = [\<lparr>ResourceSpec_Name = ''cpu'', ResourceSpec_Weight = 1\<rparr>,
                                        \<lparr>ResourceSpec_Name = ''memory'', ResourceSpec_Weight = 3\<rparr>],
           RequestedToCapacityRatio = None\<rparr>"
  using resource_weight_normalization [of "\<lparr>Resources = [\<lparr>ResourceSpec_Name = ''cpu'', ResourceSpec_Weight = 0\<rparr>,
                    \<lparr>ResourceSpec_Name = ''memory'', ResourceSpec_Weight = 3\<rparr>]\<rparr>" k0
      "\<lparr>IgnoredResources = [], IgnoredResourceGroups = [],
       ScoringStrategy = Some \<lparr>ScoringStrategy_Type = ''MostAllocated'',
         ScoringStrategy_Resources = [\<lparr>ResourceSpec_Name = ''cpu'', ResourceSpec_Weight = 0\<rparr>,
                                      \<lparr>ResourceSpec_Name = ''memory'', ResourceSpec_Weight = 3\<rparr>],
         RequestedToCapacityRatio = None\<rparr>\<rparr>"
      "\<lparr>ScoringStrategy_Type = ''MostAllocated'',
         ScoringStrategy_Resources = [\<lparr>ResourceSpec_Name = ''cpu'', ResourceSpec_Weight = 0\<rparr>,
                                      \<lparr>ResourceSpec_Name = ''memory'', ResourceSpec_Weight = 3\<rparr>],
         RequestedToCapacityRatio = None\<rparr>"]
  by simp

subsection \<open>Profiles and scheduler names\<close>

text \<open>
  Claim C3. After \<^verbatim>\<open>SetDefaults_KubeSchedulerConfiguration\<close> the profile list is not empty. A
  configuration without profiles gets one profile named with the default scheduler name;
  a configuration with exactly one profile gets the default name when that profile has
  none and keeps its name otherwise; with two or more profiles no \<^verbatim>\<open>SchedulerName\<close> is
  changed.
\<close>

theorem single_profile_naming:
  "Profiles (SetDefaults_KubeSchedulerConfiguration env obj) \<noteq> [] \<and>
   (Profiles obj = [] \<longrightarrow>
      map SchedulerName (Profiles (SetDefaults_KubeSchedulerConfiguration env obj)) =
        [Some (DefaultSchedulerName (K env))]) \<and>
   (Profiles obj = [p] \<longrightarrow>
      map SchedulerName (Profiles (SetDefaults_KubeSchedulerConfiguration env obj)) =
        [case SchedulerName p of None \<Rightarrow> Some (DefaultSchedulerName (K env)) | Some n \<Rightarrow> Some n]) \<and>
   (2 \<le> length (Profiles obj) \<longrightarrow>
      map SchedulerName (Profiles (SetDefaults_KubeSchedulerConfiguration env obj)) =
        map SchedulerName (Profiles obj))"
proof -
  have "Profiles (SetDefaults_KubeSchedulerConfiguration env obj) \<noteq> []"
    by (simp add: SD_Profiles name_profiles_nonempty)
  moreover have "Profiles obj = [] \<longrightarrow>
      map SchedulerName (Profiles (SetDefaults_KubeSchedulerConfiguration env obj)) =
        [Some (DefaultSchedulerName (K env))]"
    by (simp add: SD_Profiles map_SchedulerName_defaulted name_profiles_Nil
          setDefaults_KubeSchedulerProfile_SchedulerName)
  moreover have "Profiles obj = [p] \<longrightarrow>
      map SchedulerName (Profiles (SetDefaults_KubeSchedulerConfiguration env obj)) =
        [case SchedulerName p of None \<Rightarrow> Some (DefaultSchedulerName (K env)) | Some n \<Rightarrow> Some n]"
    by (auto simp add: SD_Profiles name_profiles_single
          setDefaults_KubeSchedulerProfile_SchedulerName)
  moreover have "2 \<le> length (Profiles obj) \<longrightarrow>
      map SchedulerName (Profiles (SetDefaults_KubeSchedulerConfiguration env obj)) =
        map SchedulerName (Profiles obj)"
    by (simp add: SD_Profiles name_profiles_many setDefaults_KubeSchedulerProfile_SchedulerName)
  ultimately show ?thesis by blast
qed

text \<open>
  No profile, one unnamed profile, two unnamed profiles.
\<close>

theorem single_profile_naming_witness:
  "map SchedulerName (Profiles (SetDefaults_KubeSchedulerConfiguration env0
      zero_KubeSchedulerConfiguration)) = [Some ''default-scheduler''] \<and>
   map SchedulerName (Profiles (SetDefaults_KubeSchedulerConfiguration env0
      (zero_KubeSchedulerConfiguration\<lparr>Profiles := [example_profile]\<rparr>))) =
     [Some ''default-scheduler''] \<and>
   map SchedulerName (Profiles (SetDefaults_KubeSchedulerConfiguration env0
      (zero_KubeSchedulerConfiguration\<lparr>Profiles := [example_profile, example_profile_twice]\<rparr>))) =
     [None, None]"
  using single_profile_naming [of env0 zero_KubeSchedulerConfiguration example_profile]
    single_profile_naming [of env0 "zero_KubeSchedulerConfiguration\<lparr>Profiles := [example_profile]\<rparr>" example_profile]
    single_profile_naming [of env0 "zero_KubeSchedulerConfiguration\<lparr>Profiles := [example_profile, example_profile_twice]\<rparr>"
          example_profile]
  by (simp add: zero_KubeSchedulerConfiguration_def env0_fields k0_def example_profile_def
        example_profile_twice_def)

subsection \<open>Scalar defaults\<close>

text \<open>
  Claim C4. Each scalar field of the result is the fixed default when the field was unset
  (nil, zero or empty) and the given value otherwise; so the empty configuration gets
  Parallelism 16, QPS 50, Burst 100, backoff 1 and 10 seconds, both profiling flags true,
  the protobuf content type and the \<^verbatim>\<open>leases\<close> resource lock. The leader-election
  collaborator runs after the lock is set: it is assumed to leave a non-empty
  \<^verbatim>\<open>ResourceLock\<close> as it is.
\<close>

theorem scalar_defaults:
  assumes "\<forall>le. ResourceLock le \<noteq> [] \<longrightarrow>
              ResourceLock (RecommendedDefaultLeaderElectionConfiguration env le) = ResourceLock le"
  shows
  "Parallelism (SetDefaults_KubeSchedulerConfiguration env obj) =
     (if Parallelism obj = None then Some 16 else Parallelism obj) \<and>
   QPS (ClientConnection (SetDefaults_KubeSchedulerConfiguration env obj)) =
     (if QPS (ClientConnection obj) = Float32 0 then Float32 50 else QPS (ClientConnection obj)) \<and>
   Burst (ClientConnection (SetDefaults_KubeSchedulerConfiguration env obj)) =
     (if Burst (ClientConnection obj) = 0 then 100 else Burst (ClientConnection obj)) \<and>
   PodInitialBackoffSeconds (SetDefaults_KubeSchedulerConfiguration env obj) =
     (if PodInitialBackoffSeconds obj = None then Some 1 else PodInitialBackoffSeconds obj) \<and>
   PodMaxBackoffSeconds (SetDefaults_KubeSchedulerConfiguration env obj) =
     (if PodMaxBackoffSeconds obj = None then Some 10 else PodMaxBackoffSeconds obj) \<and>
   EnableProfiling (SetDefaults_KubeSchedulerConfiguration env obj) =
     (if EnableProfiling obj = None then Some True else EnableProfiling obj) \<and>
   EnableContentionProfiling (SetDefaults_KubeSchedulerConfiguration env obj) =
     (if EnableContentionProfiling obj = None \<and> EnableProfiling obj \<noteq> Some False then Some True
      else EnableContentionProfiling obj) \<and>
   ContentType (ClientConnection (SetDefaults_KubeSchedulerConfiguration env obj)) =
     (if ContentType (ClientConnection obj) = [] then ''application/vnd.kubernetes.protobuf''
      else ContentType (ClientConnection obj)) \<and>
   ResourceLock (LeaderElection (SetDefaults_KubeSchedulerConfiguration env obj)) =
     (if ResourceLock (LeaderElection obj) = [] then ''leases''
      else ResourceLock (LeaderElection obj))"
proof -
  have "ResourceLock (default_LeaderElection (K env) (LeaderElection obj)) \<noteq> []"
    by (simp add: default_LeaderElection_ResourceLock)
  with assms have lock:
    "ResourceLock (RecommendedDefaultLeaderElectionConfiguration env
        (default_LeaderElection (K env) (LeaderElection obj))) =
     ResourceLock (default_LeaderElection (K env) (LeaderElection obj))"
    by blast
  have 1: "Parallelism (SetDefaults_KubeSchedulerConfiguration env obj) =
     (if Parallelism obj = None then Some 16 else Parallelism obj)"
    by (simp add: SD_fields split: option.splits)
  have 2: "QPS (ClientConnection (SetDefaults_KubeSchedulerConfiguration env obj)) =
     (if QPS (ClientConnection obj) = Float32 0 then Float32 50 else QPS (ClientConnection obj))"
    by (simp add: SD_fields default_ClientConnection_eq)
  have 3: "Burst (ClientConnection (SetDefaults_KubeSchedulerConfiguration env obj)) =
     (if Burst (ClientConnection obj) = 0 then 100 else Burst (ClientConnection obj))"
    by (simp add: SD_fields default_ClientConnection_eq)
  have 4: "PodInitialBackoffSeconds (SetDefaults_KubeSchedulerConfiguration env obj) =
     (if PodInitialBackoffSeconds obj = None then Some 1 else PodInitialBackoffSeconds obj)"
    by (simp add: SD_fields split: option.splits)
  have 5: "PodMaxBackoffSeconds (SetDefaults_KubeSchedulerConfiguration env obj) =
     (if PodMaxBackoffSeconds obj = None then Some 10 else PodMaxBackoffSeconds obj)"
    by (simp add: SD_fields split: option.splits)
  have 6: "EnableProfiling (SetDefaults_KubeSchedulerConfiguration env obj) =
     (if EnableProfiling obj = None then Some True else EnableProfiling obj)"
    by (simp add: SD_fields split: option.splits)
  have 7: "EnableContentionProfiling (SetDefaults_KubeSchedulerConfiguration env obj) =
     (if EnableContentionProfiling obj = None \<and> EnableProfiling obj \<noteq> Some False then Some True
      else EnableContentionProfiling obj)"
    by (simp add: SD_fields split: option.splits)
  have 8: "ContentType (ClientConnection (SetDefaults_KubeSchedulerConfiguration env obj)) =
     (if ContentType (ClientConnection obj) = [] then ''application/vnd.kubernetes.protobuf''
      else ContentType (ClientConnection obj))"
    by (simp add: SD_fields default_ClientConnection_eq)
  have 9: "ResourceLock (LeaderElection (SetDefaults_KubeSchedulerConfiguration env obj)) =
     (if ResourceLock (LeaderElection obj) = [] then ''leases''
      else ResourceLock (LeaderElection obj))"
    by (simp only: SD_fields lock default_LeaderElection_ResourceLock)
  from 1 2 3 4 5 6 7 8 9 show ?thesis by blast
qed

text \<open>
  The empty configuration, with a leader-election collaborator that fills what is unset.
\<close>

theorem scalar_defaults_witness:
  "Parallelism (SetDefaults_KubeSchedulerConfiguration env0 zero_KubeSchedulerConfiguration) = Some 16 \<and>
   QPS (ClientConnection (SetDefaults_KubeSchedulerConfiguration env0 zero_KubeSchedulerConfiguration)) = Float32 50 \<and>
   Burst (ClientConnection (SetDefaults_KubeSchedulerConfiguration env0 zero_KubeSchedulerConfiguration)) = 100 \<and>
   PodInitialBackoffSeconds (SetDefaults_KubeSchedulerConfiguration env0 zero_KubeSchedulerConfiguration) = Some 1 \<and>
   PodMaxBackoffSeconds (SetDefaults_KubeSchedulerConfiguration env0 zero_KubeSchedulerConfiguration) = Some 10 \<and>
   EnableProfiling (SetDefaults_KubeSchedulerConfiguration env0 zero_KubeSchedulerConfiguration) = Some True \<and>
   EnableContentionProfiling (SetDefaults_KubeSchedulerConfiguration env0 zero_KubeSchedulerConfiguration) = Some True \<and>
   ContentType (ClientConnection (SetDefaults_KubeSchedulerConfiguration env0 zero_KubeSchedulerConfiguration)) =
     ''application/vnd.kubernetes.protobuf'' \<and>
   ResourceLock (LeaderElection (SetDefaults_KubeSchedulerConfiguration env0 zero_KubeSchedulerConfiguration)) =
     ''leases''"
proof -
  have h: "\<forall>le. ResourceLock le \<noteq> [] \<longrightarrow>
      ResourceLock (RecommendedDefaultLeaderElectionConfiguration env0 le) = ResourceLock le"
    by (simp add: env0_fields example_RecommendedDefaults_def)
  show ?thesis
    using scalar_defaults [OF h, of zero_KubeSchedulerConfiguration]
    by (simp add: zero_KubeSchedulerConfiguration_def zero_ClientConnectionConfiguration_def
          zero_LeaderElectionConfiguration_def)
qed

subsection \<open>Plugin configuration completion\<close>

text \<open>
  Claim C8. An existing entry whose \<^verbatim>\<open>Args.Object\<close> is a \<^verbatim>\<open>*runtime.Unknown\<close> is at the same
  index after profile defaulting and is equal to the entry before. When \<^verbatim>\<open>scheme.New\<close>
  fails for the kind \<^verbatim>\<open>name + "Args"\<close>, none of the appended entries (those after the
  original ones) has that name. The function is total: there is no error result.
\<close>

theorem unknown_args_untouched_unknown_kind_skipped:
  "(j < length (PluginConfig prof) \<and> Object (Args (PluginConfig prof ! j)) = Unknown u \<longrightarrow>
      j < length (PluginConfig (setDefaults_KubeSchedulerProfile env prof)) \<and>
      PluginConfig (setDefaults_KubeSchedulerProfile env prof) ! j = PluginConfig prof ! j) \<and>
   (scheme_New env (WithKind (SchemeGroupVersion (K env)) (name @ ''Args'')) = None \<longrightarrow>
      name \<notin> PluginConfig_Name `
        set (drop (length (PluginConfig prof))
               (PluginConfig (setDefaults_KubeSchedulerProfile env prof))))"
proof -
  have a: "j < length (PluginConfig prof) \<and> Object (Args (PluginConfig prof ! j)) = Unknown u \<longrightarrow>
      j < length (PluginConfig (setDefaults_KubeSchedulerProfile env prof)) \<and>
      PluginConfig (setDefaults_KubeSchedulerProfile env prof) ! j = PluginConfig prof ! j"
    by (simp add: PluginConfig_defaulted nth_append default_existing_Unknown)
  have b: "scheme_New env (WithKind (SchemeGroupVersion (K env)) (name @ ''Args'')) = None \<longrightarrow>
      name \<notin> PluginConfig_Name `
        set (drop (length (PluginConfig prof))
               (PluginConfig (setDefaults_KubeSchedulerProfile env prof)))"
    by (simp add: PluginConfig_defaulted map_filter_name_set new_entry_None)
  from a b show ?thesis by blast
qed

text \<open>
  The NodeName entry of unknown type stays; nothing is appended for DefaultBinder, whose
  argument kind the registry does not know.
\<close>

theorem unknown_args_untouched_unknown_kind_skipped_witness:
  "PluginConfig (setDefaults_KubeSchedulerProfile env0 example_profile) ! 0 =
     \<lparr>PluginConfig_Name = ''NodeName'', Args = \<lparr>Raw = [], Object = Unknown ''{}''\<rparr>\<rparr> \<and>
   ''DefaultBinder'' \<notin> PluginConfig_Name `
      set (drop 1 (PluginConfig (setDefaults_KubeSchedulerProfile env0 example_profile)))"
  using unknown_args_untouched_unknown_kind_skipped [of 0 example_profile "''{}''" env0 "''DefaultBinder''"]
  by (simp add: example_profile_def env0_fields registry_New_def WithKind_def k0_def)

text \<open>
  Claim C10. Profile defaulting keeps the names of the original entries in their
  positions. The names appended after them are the names of \<^verbatim>\<open>pluginsNames\<close> of the merged
  pipeline that had no entry and whose argument kind the scheme knows, in the order of
  \<^verbatim>\<open>pluginsNames\<close>, hence strictly increasing. \<^verbatim>\<open>pluginsNames\<close> itself is strictly
  increasing (sorted, no duplicates) and holds exactly the names enabled at the twelve
  extension points; it is empty for a nil pipeline.
\<close>

theorem plugin_config_order:
  "take (length (PluginConfig prof))
     (map PluginConfig_Name (PluginConfig (setDefaults_KubeSchedulerProfile env prof))) =
     map PluginConfig_Name (PluginConfig prof) \<and>
   drop (length (PluginConfig prof))
     (map PluginConfig_Name (PluginConfig (setDefaults_KubeSchedulerProfile env prof))) =
     filter (\<lambda>n. n \<notin> PluginConfig_Name ` set (PluginConfig prof) \<and>
                scheme_New env (WithKind (SchemeGroupVersion (K env)) (n @ ''Args'')) \<noteq> None)
       (pluginsNames (Plugins (setDefaults_KubeSchedulerProfile env prof))) \<and>
   sorted_wrt (<)
     (drop (length (PluginConfig prof))
        (map PluginConfig_Name (PluginConfig (setDefaults_KubeSchedulerProfile env prof)))) \<and>
   sorted_wrt (<) (pluginsNames p) \<and>
   set (pluginsNames (Some pl)) =
     Plugin_Name ` (set (Enabled (MultiPoint pl)) \<union> set (Enabled (PreFilter pl)) \<union>
       set (Enabled (Filter pl)) \<union> set (Enabled (PostFilter pl)) \<union> set (Enabled (Reserve pl)) \<union>
       set (Enabled (PreScore pl)) \<union> set (Enabled (Score pl)) \<union> set (Enabled (PreBind pl)) \<union>
       set (Enabled (Bind pl)) \<union> set (Enabled (PostBind pl)) \<union> set (Enabled (Permit pl)) \<union>
       set (Enabled (QueueSort pl))) \<and>
   pluginsNames None = []"
proof -
  have 1: "take (length (PluginConfig prof))
     (map PluginConfig_Name (PluginConfig (setDefaults_KubeSchedulerProfile env prof))) =
     map PluginConfig_Name (PluginConfig prof)"
    by (simp add: PluginConfig_names)
  have 2: "drop (length (PluginConfig prof))
     (map PluginConfig_Name (PluginConfig (setDefaults_KubeSchedulerProfile env prof))) =
     filter (\<lambda>n. n \<notin> PluginConfig_Name ` set (PluginConfig prof) \<and>
                scheme_New env (WithKind (SchemeGroupVersion (K env)) (n @ ''Args'')) \<noteq> None)
       (pluginsNames (Plugins (setDefaults_KubeSchedulerProfile env prof)))"
    by (simp add: PluginConfig_names)
  have 3: "sorted_wrt (<)
     (drop (length (PluginConfig prof))
        (map PluginConfig_Name (PluginConfig (setDefaults_KubeSchedulerProfile env prof))))"
    by (simp only: 2 sorted_wrt_filter pluginsNames_sorted)
  have 4: "set (pluginsNames (Some pl)) =
     Plugin_Name ` (set (Enabled (MultiPoint pl)) \<union> set (Enabled (PreFilter pl)) \<union>
       set (Enabled (Filter pl)) \<union> set (Enabled (PostFilter pl)) \<union> set (Enabled (Reserve pl)) \<union>
       set (Enabled (PreScore pl)) \<union> set (Enabled (Score pl)) \<union> set (Enabled (PreBind pl)) \<union>
       set (Enabled (Bind pl)) \<union> set (Enabled (PostBind pl)) \<union> set (Enabled (Permit pl)) \<union>
       set (Enabled (QueueSort pl)))"
    by (simp add: pluginsNames_Some enabled_names_def image_Un Un_assoc)
  have 5: "pluginsNames None = []"
    by (simp add: pluginsNames_def)
  from 1 2 3 4 5 pluginsNames_sorted [of p] show ?thesis by blast
qed

text \<open>
  On \<open>example_profile\<close> the NodeName entry stays first; NodeResourcesFit and VolumeBinding
  follow in that order.
\<close>

theorem plugin_config_order_witness:
  "map PluginConfig_Name (PluginConfig (setDefaults_KubeSchedulerProfile env0 example_profile)) =
     [''NodeName'', ''NodeResourcesFit'', ''VolumeBinding'']"
proof -
  have names: "pluginsNames (Plugins (setDefaults_KubeSchedulerProfile env0 example_profile)) =
      [''DefaultBinder'', ''NodeName'', ''NodeResourcesFit'', ''VolumeBinding'']"
    using example_names by (simp add: Plugins_defaulted example_profile_def)
  have "take 1 (map PluginConfig_Name (PluginConfig (setDefaults_KubeSchedulerProfile env0 example_profile))) =
          [''NodeName''] \<and>
        drop 1 (map PluginConfig_Name (PluginConfig (setDefaults_KubeSchedulerProfile env0 example_profile))) =
          [''NodeResourcesFit'', ''VolumeBinding'']"
    using plugin_config_order [of example_profile env0 None "example_plugins [] []"]
    by (simp only: names)
       (simp add: example_profile_def env0_fields registry_New_def WithKind_def k0_def)
  then show ?thesis
    by (metis append_take_drop_id append_Cons append_Nil)
qed

text \<open>
  Claim C2 as stated fails on \<open>example_profile_twice\<close>: NodeName is enabled and the
  registry has no \<^verbatim>\<open>NodeNameArgs\<close>, yet the entry the profile came with is kept, so the
  name has one entry, not none; VolumeBinding is enabled and known to the registry, and
  the two entries the profile came with are both kept, so it has two entries, not one.
\<close>

theorem plugin_config_completeness_counterexample:
  "''NodeName'' \<in> set (pluginsNames (Plugins (setDefaults_KubeSchedulerProfile env0 example_profile_twice))) \<and>
   scheme_New env0 (WithKind (SchemeGroupVersion (K env0)) (''NodeName'' @ ''Args'')) = None \<and>
   length (filter (\<lambda>c. PluginConfig_Name c = ''NodeName'')
      (PluginConfig (setDefaults_KubeSchedulerProfile env0 example_profile_twice))) = 1 \<and>
   ''VolumeBinding'' \<in> set (pluginsNames (Plugins (setDefaults_KubeSchedulerProfile env0 example_profile_twice))) \<and>
   scheme_New env0 (WithKind (SchemeGroupVersion (K env0)) (''VolumeBinding'' @ ''Args'')) \<noteq> None \<and>
   length (filter (\<lambda>c. PluginConfig_Name c = ''VolumeBinding'')
      (PluginConfig (setDefaults_KubeSchedulerProfile env0 example_profile_twice))) = 2"
proof -
  have names: "pluginsNames (Plugins (setDefaults_KubeSchedulerProfile env0 example_profile_twice)) =
      [''DefaultBinder'', ''NodeName'', ''NodeResourcesFit'', ''VolumeBinding'']"
    using example_names by (simp add: Plugins_defaulted example_profile_twice_def)
  have all: "map PluginConfig_Name (PluginConfig (setDefaults_KubeSchedulerProfile env0 example_profile_twice)) =
      [''NodeName'', ''VolumeBinding'', ''VolumeBinding'', ''NodeResourcesFit'']"
    by (simp only: PluginConfig_names names)
       (simp add: example_profile_twice_def env0_fields registry_New_def WithKind_def k0_def)
  show ?thesis
    by (simp only: count_by_name all names)
       (simp add: env0_fields registry_New_def WithKind_def k0_def)
qed

text \<open>
  Claim C2, amended. For a profile whose entries have pairwise distinct names, after
  profile defaulting every name enabled in the merged pipeline has exactly one entry if
  the profile already had an entry of that name or the scheme knows the kind
  \<^verbatim>\<open>name + "Args"\<close>, and no entry otherwise.
\<close>

theorem plugin_config_completeness:
  assumes "distinct (map PluginConfig_Name (PluginConfig prof))"
    and "name \<in> set (pluginsNames (Plugins (setDefaults_KubeSchedulerProfile env prof)))"
  shows "length (filter (\<lambda>c. PluginConfig_Name c = name)
                   (PluginConfig (setDefaults_KubeSchedulerProfile env prof))) =
         (if name \<in> PluginConfig_Name ` set (PluginConfig prof) \<or>
             scheme_New env (WithKind (SchemeGroupVersion (K env)) (name @ ''Args'')) \<noteq> None
          then 1 else 0)"
proof -
  let ?new = "filter (\<lambda>n. n \<notin> PluginConfig_Name ` set (PluginConfig prof) \<and>
               scheme_New env (WithKind (SchemeGroupVersion (K env)) (n @ ''Args'')) \<noteq> None)
      (pluginsNames (Plugins (setDefaults_KubeSchedulerProfile env prof)))"
  have "distinct ?new"
    by (simp add: pluginsNames_distinct)
  then have new: "length (filter (\<lambda>n. n = name) ?new) = (if name \<in> set ?new then 1 else 0)"
    by (rule count_distinct)
  have old: "length (filter (\<lambda>n. n = name) (map PluginConfig_Name (PluginConfig prof))) =
      (if name \<in> set (map PluginConfig_Name (PluginConfig prof)) then 1 else 0)"
    using assms(1) by (rule count_distinct)
  have "length (filter (\<lambda>c. PluginConfig_Name c = name)
                   (PluginConfig (setDefaults_KubeSchedulerProfile env prof))) =
        length (filter (\<lambda>n. n = name) (map PluginConfig_Name (PluginConfig prof))) +
        length (filter (\<lambda>n. n = name) ?new)"
    by (simp only: count_by_name PluginConfig_names filter_append length_append)
  also have "\<dots> = (if name \<in> set (map PluginConfig_Name (PluginConfig prof)) then 1 else 0) +
                   (if name \<in> set ?new then 1 else 0)"
    by (simp only: old new)
  also have "\<dots> = (if name \<in> PluginConfig_Name ` set (PluginConfig prof) \<or>
             scheme_New env (WithKind (SchemeGroupVersion (K env)) (name @ ''Args'')) \<noteq> None
          then 1 else 0)"
    using assms(2) by auto
  finally show ?thesis .
qed

text \<open>
  On \<open>example_profile\<close>: NodeName keeps its entry, VolumeBinding gets one, DefaultBinder
  has none.
\<close>

theorem plugin_config_completeness_witness:
  "length (filter (\<lambda>c. PluginConfig_Name c = ''NodeName'')
      (PluginConfig (setDefaults_KubeSchedulerProfile env0 example_profile))) = 1 \<and>
   length (filter (\<lambda>c. PluginConfig_Name c = ''VolumeBinding'')
      (PluginConfig (setDefaults_KubeSchedulerProfile env0 example_profile))) = 1 \<and>
   length (filter (\<lambda>c. PluginConfig_Name c = ''DefaultBinder'')
      (PluginConfig (setDefaults_KubeSchedulerProfile env0 example_profile))) = 0"
proof -
  have d: "distinct (map PluginConfig_Name (PluginConfig example_profile))"
    by (simp add: example_profile_def)
  have names: "pluginsNames (Plugins (setDefaults_KubeSchedulerProfile env0 example_profile)) =
      [''DefaultBinder'', ''NodeName'', ''NodeResourcesFit'', ''VolumeBinding'']"
    using example_names by (simp add: Plugins_defaulted example_profile_def)
  have 1: "''NodeName'' \<in> set (pluginsNames (Plugins (setDefaults_KubeSchedulerProfile env0 example_profile)))"
    by (simp only: names) simp
  have 2: "''VolumeBinding'' \<in> set (pluginsNames (Plugins (setDefaults_KubeSchedulerProfile env0 example_profile)))"
    by (simp only: names) simp
  have 3: "''DefaultBinder'' \<in> set (pluginsNames (Plugins (setDefaults_KubeSchedulerProfile env0 example_profile)))"
    by (simp only: names) simp
  show ?thesis
    using plugin_config_completeness [OF d 1] plugin_config_completeness [OF d 2] plugin_config_completeness [OF d 3]
    by (simp add: example_profile_def env0_fields registry_New_def WithKind_def k0_def)
qed

subsection \<open>The merge collaborator\<close>



lemma fold_profile_step_panic_Inl:
  "fold (profile_step_panic env mp) js (Inl e) = Inl e"
  by (induction js) (simp_all add: profile_step_panic_def)







subsection \<open>Idempotence\<close>

text \<open>
  Claim C1. Defaulting a defaulted configuration changes nothing, given the contracts of
  the collaborators: \<^verbatim>\<open>mergePlugins\<close> is idempotent on a merged pipeline; the scheme's
  \<^verbatim>\<open>Default\<close> is idempotent, also on an instance that was defaulted and then tagged with
  its kind (the second pass defaults again every entry the first pass appended); the
  leader-election collaborator is idempotent and does not empty a lock, namespace or name
  that is set.
\<close>

theorem defaulting_idempotent:
  assumes merge: "\<forall>p. mergePlugins env (getDefaultPlugins env)
                        (mergePlugins env (getDefaultPlugins env) p) =
                      mergePlugins env (getDefaultPlugins env) p"
    and idem: "\<forall>a. scheme_Default env (scheme_Default env a) = scheme_Default env a"
    and tagged: "\<forall>g a. scheme_Default env (SetGroupVersionKind env g (scheme_Default env a)) =
                  SetGroupVersionKind env g (scheme_Default env a)"
    and R_idem: "\<forall>le. RecommendedDefaultLeaderElectionConfiguration env
                        (RecommendedDefaultLeaderElectionConfiguration env le) =
                      RecommendedDefaultLeaderElectionConfiguration env le"
    and keeps: "\<forall>le. (ResourceLock le \<noteq> [] \<longrightarrow>
                        ResourceLock (RecommendedDefaultLeaderElectionConfiguration env le) \<noteq> []) \<and>
                     (ResourceNamespace le \<noteq> [] \<longrightarrow>
                        ResourceNamespace (RecommendedDefaultLeaderElectionConfiguration env le) \<noteq> []) \<and>
                     (ResourceName le \<noteq> [] \<longrightarrow>
                        ResourceName (RecommendedDefaultLeaderElectionConfiguration env le) \<noteq> [])"
  shows "SetDefaults_KubeSchedulerConfiguration env (SetDefaults_KubeSchedulerConfiguration env obj) =
           SetDefaults_KubeSchedulerConfiguration env obj"
proof -
  let ?once = "SetDefaults_KubeSchedulerConfiguration env obj"
  let ?twice = "SetDefaults_KubeSchedulerConfiguration env ?once"
  have map_idem: "map (setDefaults_KubeSchedulerProfile env)
      (map (setDefaults_KubeSchedulerProfile env) ps) =
      map (setDefaults_KubeSchedulerProfile env) ps" for ps
    by (induction ps) (simp_all add: setDefaults_KubeSchedulerProfile_idem [OF merge idem tagged])
  have 1: "Parallelism ?twice = Parallelism ?once"
    by (simp add: SD_fields split: option.splits)
  have 2: "LeaderElection ?twice = LeaderElection ?once"
    by (simp only: SD_fields LeaderElection_idem [OF R_idem keeps])
  have 3: "ClientConnection ?twice = ClientConnection ?once"
    by (simp only: SD_fields default_ClientConnection_idem)
  have 4: "EnableProfiling ?twice = EnableProfiling ?once"
    by (simp add: SD_fields split: option.splits)
  have 5: "EnableContentionProfiling ?twice = EnableContentionProfiling ?once"
    by (simp add: SD_fields split: option.splits)
  have 6: "PercentageOfNodesToScore ?twice = PercentageOfNodesToScore ?once"
    by (simp add: SetDefaults_KubeSchedulerConfiguration_eq split: option.splits)
  have 7: "PodInitialBackoffSeconds ?twice = PodInitialBackoffSeconds ?once"
    by (simp add: SD_fields split: option.splits)
  have 8: "PodMaxBackoffSeconds ?twice = PodMaxBackoffSeconds ?once"
    by (simp add: SD_fields split: option.splits)
  have 9: "Profiles ?twice = Profiles ?once"
    by (simp only: SD_Profiles name_profiles_defaulted map_idem)
  have "KubeSchedulerConfiguration.more ?twice = KubeSchedulerConfiguration.more ?once"
    by simp
  with 1 2 3 4 5 6 7 8 9 show ?thesis
    by (rule KubeSchedulerConfiguration.equality)
qed

text \<open>
  The example registry built from the defaulters of \<^verbatim>\<open>defaults.go\<close> and the example
  collaborators meet every contract, so defaulting twice equals defaulting once there.
\<close>

theorem defaulting_idempotent_witness:
  "SetDefaults_KubeSchedulerConfiguration env0
     (SetDefaults_KubeSchedulerConfiguration env0
        (zero_KubeSchedulerConfiguration\<lparr>Profiles := [example_profile]\<rparr>)) =
   SetDefaults_KubeSchedulerConfiguration env0
     (zero_KubeSchedulerConfiguration\<lparr>Profiles := [example_profile]\<rparr>)"
proof -
  have merge: "\<forall>p. mergePlugins env0 (getDefaultPlugins env0)
                 (mergePlugins env0 (getDefaultPlugins env0) p) =
               mergePlugins env0 (getDefaultPlugins env0) p"
    by (simp add: env0_fields example_merge_idem)
  have idem: "\<forall>a. scheme_Default env0 (scheme_Default env0 a) = scheme_Default env0 a"
    by (simp add: env0_fields registry_Default_idem)
  have tagged: "\<forall>g a. scheme_Default env0 (SetGroupVersionKind env0 g (scheme_Default env0 a)) =
                  SetGroupVersionKind env0 g (scheme_Default env0 a)"
    by (simp add: env0_fields registry_Default_tagged registry_Default_idem)
  have R_idem: "\<forall>le. RecommendedDefaultLeaderElectionConfiguration env0
                        (RecommendedDefaultLeaderElectionConfiguration env0 le) =
                      RecommendedDefaultLeaderElectionConfiguration env0 le"
    by (simp add: env0_fields example_RecommendedDefaults_idem)
  have keeps: "\<forall>le. (ResourceLock le \<noteq> [] \<longrightarrow>
                        ResourceLock (RecommendedDefaultLeaderElectionConfiguration env0 le) \<noteq> []) \<and>
                     (ResourceNamespace le \<noteq> [] \<longrightarrow>
                        ResourceNamespace (RecommendedDefaultLeaderElectionConfiguration env0 le) \<noteq> []) \<and>
                     (ResourceName le \<noteq> [] \<longrightarrow>
                        ResourceName (RecommendedDefaultLeaderElectionConfiguration env0 le) \<noteq> [])"
    using example_RecommendedDefaults_keeps by (simp add: env0_fields)
  show ?thesis
    using merge idem tagged R_idem keeps by (rule defaulting_idempotent)
qed

end
